theory Spec2Isabelle
  imports Complex_Main "HOL-Library.Word"
begin

unbundle bit_operations_syntax

section \<open>Errors (pkg/errors/errors.go)\<close>

text \<open>
  A Go \<open>error\<close> value is either a \<open>*PulseError\<close> or some other error (one made by
  \<open>fmt.Errorf\<close>, or one handed back by a library). A nil error is \<open>None\<close> of
  \<open>go_error option\<close>. The \<open>Context\<close> map of a \<open>PulseError\<close> is never read by the
  code modelled here and is left out.
\<close>

datatype go_error =
    PlainError string
  | PulseError string string "go_error option" bool int

text \<open>The error categories, \<open>type ErrorType string\<close>.\<close>

definition NetworkError :: string where "NetworkError = ''network''"
definition AuthError :: string where "AuthError = ''auth''"
definition FileSystemError :: string where "FileSystemError = ''filesystem''"
definition ValidationError :: string where "ValidationError = ''validation''"
definition ConfigError :: string where "ConfigError = ''config''"
definition SyncError :: string where "SyncError = ''sync''"
definition ProviderError :: string where "ProviderError = ''provider''"

fun error_string :: "go_error \<Rightarrow> string" where
  "error_string (PlainError s) = s"
| "error_string (PulseError ty msg None r sc) = ''['' @ ty @ ''] '' @ msg"
| "error_string (PulseError ty msg (Some e) r sc) =
     ''['' @ ty @ ''] '' @ msg @ '': '' @ error_string e"

definition New :: "string \<Rightarrow> string \<Rightarrow> go_error option \<Rightarrow> go_error" where
  "New errType message err = PulseError errType message err False 0"

definition NewSyncError :: "string \<Rightarrow> go_error option \<Rightarrow> go_error" where
  "NewSyncError message err = New SyncError message err"

definition NewDatabaseError :: "string \<Rightarrow> go_error option \<Rightarrow> go_error" where
  "NewDatabaseError message err = New FileSystemError message err"

fun IsNotFoundError :: "go_error \<Rightarrow> bool" where
  "IsNotFoundError (PulseError ty msg e r sc) = (sc = 404)"
| "IsNotFoundError (PlainError s) = False"

text \<open>The verb \<open>%d\<close> of \<open>fmt\<close>: an integer in decimal.\<close>

fun fmt_nat :: "nat \<Rightarrow> string" where
  "fmt_nat n =
     (if n < 10 then [''0123456789'' ! n]
      else fmt_nat (n div 10) @ [''0123456789'' ! (n mod 10)])"

definition fmt_d :: "int \<Rightarrow> string" where
  "fmt_d i = (if i < 0 then CHR ''-'' # fmt_nat (nat (- i)) else fmt_nat (nat i))"


section \<open>Change queue (internal/watchers/queue/change_queue.go)\<close>

subsection \<open>Change events of the queue (pkg/models)\<close>

text \<open>
  \<open>type ChangeType string\<close>: any string is a change type, the constants name the
  known ones. \<open>Timestamp\<close> is a \<open>time.Time\<close>, modelled as the instant in nanoseconds;
  \<open>Time.After\<close> is \<open><\<close> on instants. The free-form \<open>Metadata\<close> map is left out.
\<close>

type_synonym ChangeType = string

definition ChangeTypeCreate :: ChangeType where "ChangeTypeCreate = ''create''"
definition ChangeTypeModify :: ChangeType where "ChangeTypeModify = ''modify''"
definition ChangeTypeDelete :: ChangeType where "ChangeTypeDelete = ''delete''"
definition ChangeTypeRename :: ChangeType where "ChangeTypeRename = ''rename''"
definition ChangeTypeMove :: ChangeType where "ChangeTypeMove = ''move''"
definition ChangeTypeChmod :: ChangeType where "ChangeTypeChmod = ''chmod''"
definition ChangeTypeTouch :: ChangeType where "ChangeTypeTouch = ''touch''"
definition ChangeTypeTruncate :: ChangeType where "ChangeTypeTruncate = ''truncate''"

record QueuedEvent =
  q_ID :: string
  q_Type :: ChangeType
  q_Source :: string
  q_Path :: string
  q_OldPath :: string
  q_Timestamp :: int
  q_Size :: int
  q_OldSize :: int
  q_Hash :: string
  q_OldHash :: string
  q_IsDir :: bool
  q_MimeType :: string
  q_Permissions :: string
  q_Status :: string
  q_Processed :: bool
  q_Retries :: int
  q_Error :: string

text \<open>
  \<open>NewChangeEvent\<close>: the identifier (\<open>evt_<nanoseconds>\<close>) and the clock reading are
  taken as arguments.
\<close>

definition NewChangeEvent :: "string \<Rightarrow> int \<Rightarrow> ChangeType \<Rightarrow> string \<Rightarrow> QueuedEvent" where
  "NewChangeEvent ident now eventType path =
     \<lparr> q_ID = ident, q_Type = eventType, q_Source = ''local'', q_Path = path,
       q_OldPath = [], q_Timestamp = now, q_Size = 0, q_OldSize = 0, q_Hash = [],
       q_OldHash = [], q_IsDir = False, q_MimeType = [], q_Permissions = [],
       q_Status = ''pending'', q_Processed = False, q_Retries = 0, q_Error = [] \<rparr>"

subsection \<open>The queue\<close>

text \<open>
  The pending map \<open>items\<close> (keyed by path) and the set \<open>processingItems\<close> (a
  \<open>map[string]bool\<close>: a missing key reads as false). The mirror of the pending set in
  the database is written by a background goroutine after \<open>Add\<close> and after a flush; it
  does not feed back into the pending set and is not part of this model.
\<close>

record PulsePointChangeQueue =
  items :: "string \<rightharpoonup> QueuedEvent"
  processingItems :: "string \<rightharpoonup> bool"
  maxSize :: int
  batchSize :: int

definition len_items :: "PulsePointChangeQueue \<Rightarrow> int" where
  "len_items q = int (card (dom (items q)))"

definition is_processing :: "PulsePointChangeQueue \<Rightarrow> string \<Rightarrow> bool" where
  "is_processing q path = (processingItems q path = Some True)"

definition pulsePointShouldReplace :: "QueuedEvent \<Rightarrow> QueuedEvent \<Rightarrow> bool" where
  "pulsePointShouldReplace existing new =
     (if q_Type new = ChangeTypeDelete then True
      else if q_Type existing = ChangeTypeCreate \<and> q_Type new = ChangeTypeModify then False
      else if q_Type existing = ChangeTypeModify \<and> q_Type new = ChangeTypeModify
        then q_Timestamp existing < q_Timestamp new
      else if q_Type existing = ChangeTypeCreate \<and> q_Type new = ChangeTypeDelete then True
      else q_Timestamp existing < q_Timestamp new)"

definition Add :: "PulsePointChangeQueue \<Rightarrow> QueuedEvent \<Rightarrow> go_error option \<times> PulsePointChangeQueue" where
  "Add q event =
     (if len_items q \<ge> maxSize q
        then (Some (PlainError (''queue is at maximum capacity ('' @ fmt_d (maxSize q)
                                 @ '' items)'')), q)
      else if is_processing q (q_Path event) then (None, q)
      else (case items q (q_Path event) of
              Some existing \<Rightarrow>
                if pulsePointShouldReplace existing event
                  then (None, q\<lparr>items := (items q)(q_Path event \<mapsto> event)\<rparr>)
                  else (None, q)
            | None \<Rightarrow> (None, q\<lparr>items := (items q)(q_Path event \<mapsto> event)\<rparr>)))"

text \<open>
  A flush, \<open>pulsePointProcessBatch\<close>, in the four steps between which the locks are
  released and \<open>Add\<close> can run. Go ranges over a map in an order of the runtime's
  choosing: \<open>order\<close> is that order (the keys of \<open>items\<close>, each once).
\<close>

definition select_batch :: "PulsePointChangeQueue \<Rightarrow> string list \<Rightarrow> (string \<times> QueuedEvent) list" where
  "select_batch q order =
     List.map_filter (\<lambda>path. map_option (Pair path) (items q path))
       (take (nat (batchSize q)) order)"

definition mark_processing :: "PulsePointChangeQueue \<Rightarrow> string list \<Rightarrow> PulsePointChangeQueue" where
  "mark_processing q batchPaths =
     fold (\<lambda>path q'. q'\<lparr>processingItems := (processingItems q')(path \<mapsto> True),
                          items := (items q')(path := None)\<rparr>) batchPaths q"

definition reinsert_batch :: "PulsePointChangeQueue \<Rightarrow> (string \<times> QueuedEvent) list \<Rightarrow> PulsePointChangeQueue" where
  "reinsert_batch q batch =
     fold (\<lambda>(path, event) q'. q'\<lparr>items := (items q')(path \<mapsto> event)\<rparr>) batch q"

definition unmark_processing :: "PulsePointChangeQueue \<Rightarrow> string list \<Rightarrow> PulsePointChangeQueue" where
  "unmark_processing q batchPaths =
     fold (\<lambda>path q'. q'\<lparr>processingItems := (processingItems q')(path := None)\<rparr>) batchPaths q"

text \<open>Events offered one after another; the returned errors are dropped.\<close>

definition add_all :: "PulsePointChangeQueue \<Rightarrow> QueuedEvent list \<Rightarrow> PulsePointChangeQueue" where
  "add_all q events = fold (\<lambda>event q'. snd (Add q' event)) events q"

text \<open>
  The flush. \<open>processFunc\<close> is the callback (\<open>None\<close> when the queue was built without
  one); it returns nil or an error. The items lock is released before the callback
  is called, and again between the reinsertion and the clearing of the processing
  set, so other goroutines can call \<open>Add\<close> in both places: \<open>during\<close> are the events
  they offer from the release of the items lock until the reinsertion (or, when
  nothing is reinserted, until the processing set is cleared), \<open>later\<close> those offered
  between the reinsertion and the clearing of the processing set.
\<close>

definition pulsePointProcessBatch ::
  "PulsePointChangeQueue \<Rightarrow> string list \<Rightarrow> (QueuedEvent list \<Rightarrow> go_error option) option
    \<Rightarrow> QueuedEvent list \<Rightarrow> QueuedEvent list \<Rightarrow> PulsePointChangeQueue" where
  "pulsePointProcessBatch q order processFunc during later =
     (if len_items q = 0 then q
      else
        let batch = select_batch q order;
            batchPaths = map fst batch;
            q1 = mark_processing q batchPaths;
            q2 = add_all q1 during;
            q3 = (case processFunc of
                    None \<Rightarrow> q2
                  | Some f \<Rightarrow>
                      if length batch > 0
                        then (case f (map snd batch) of
                                None \<Rightarrow> q2
                              | Some err \<Rightarrow> add_all (reinsert_batch q2 batch) later)
                        else q2)
        in unmark_processing q3 batchPaths)"

text \<open>
  The queue as an \<open>Add\<close> finds it inside a flush that took its batch from \<open>q\<close>: while
  the callback runs, after the events \<open>offered\<close> went through \<open>Add\<close>; and after the
  reinsertion of the batch, after \<open>offered\<close> went through \<open>Add\<close> since.
\<close>

definition queue_while_processing ::
  "PulsePointChangeQueue \<Rightarrow> string list \<Rightarrow> QueuedEvent list \<Rightarrow> PulsePointChangeQueue" where
  "queue_while_processing q order offered =
     add_all (mark_processing q (map fst (select_batch q order))) offered"

definition queue_after_reinsert ::
  "PulsePointChangeQueue \<Rightarrow> string list \<Rightarrow> QueuedEvent list \<Rightarrow> QueuedEvent list
    \<Rightarrow> PulsePointChangeQueue" where
  "queue_after_reinsert q order during offered =
     add_all (reinsert_batch (queue_while_processing q order during) (select_batch q order))
       offered"

text \<open>
  What \<open>Add\<close> returns when it does not queue the event: the over-capacity error at a
  full pending map, nil otherwise.
\<close>

definition not_queued :: "PulsePointChangeQueue \<Rightarrow> go_error option \<times> PulsePointChangeQueue" where
  "not_queued q =
     (if maxSize q \<le> len_items q
        then Some (PlainError (''queue is at maximum capacity ('' @ fmt_d (maxSize q)
                                 @ '' items)''))
        else None, q)"

text \<open>
  The deduplication table as the specification words it, row by row: the event that
  stays pending when \<open>new\<close> arrives for the path of the pending \<open>old\<close>.
\<close>

definition newer_event :: "QueuedEvent \<Rightarrow> QueuedEvent \<Rightarrow> QueuedEvent" where
  "newer_event old new = (if q_Timestamp old < q_Timestamp new then new else old)"

definition spec_dedup_outcome :: "QueuedEvent \<Rightarrow> QueuedEvent \<Rightarrow> QueuedEvent" where
  "spec_dedup_outcome old new =
     (if q_Type new = ChangeTypeDelete then new
      else if q_Type old = ChangeTypeCreate \<and> q_Type new = ChangeTypeModify then old
      else if q_Type old = ChangeTypeModify \<and> q_Type new = ChangeTypeModify
        then newer_event old new
      else newer_event old new)"

text \<open>Concrete events and queues used to run the definitions.\<close>

definition create_a :: QueuedEvent where
  "create_a = NewChangeEvent ''evt_1'' 1 ChangeTypeCreate ''a.txt''"

definition delete_a :: QueuedEvent where
  "delete_a = NewChangeEvent ''evt_2'' 2 ChangeTypeDelete ''a.txt''"

definition modify_a :: QueuedEvent where
  "modify_a = NewChangeEvent ''evt_3'' 3 ChangeTypeModify ''a.txt''"

definition queue_with :: "QueuedEvent \<Rightarrow> int \<Rightarrow> PulsePointChangeQueue" where
  "queue_with event cap =
     \<lparr> items = [q_Path event \<mapsto> event], processingItems = Map.empty,
       maxSize = cap, batchSize = 100 \<rparr>"

text \<open>A callback that fails on every batch.\<close>

definition failing_callback :: "QueuedEvent list \<Rightarrow> go_error option" where
  "failing_callback batch = Some (PlainError ''remote unreachable'')"


section \<open>File watcher (internal/watchers/local/watcher.go)\<close>

subsection \<open>The change events of the core interfaces (internal/core/interfaces)\<close>

text \<open>
  The watcher emits these and the strategies consume them. \<open>Timestamp\<close> and \<open>Size\<close>
  are \<open>int64\<close>; nothing here computes with them beyond comparison and sums that stay
  far from the bounds, so they are integers.
\<close>

record ChangeEvent =
  ce_Type :: ChangeType
  ce_Path :: string
  ce_OldPath :: string
  ce_Timestamp :: int
  ce_Size :: int
  ce_Hash :: string
  ce_IsDir :: bool

definition ChangeTypeUnknown :: ChangeType where "ChangeTypeUnknown = ''unknown''"

text \<open>
  A raw notification: a path and the operation bits (\<open>fsnotify.Op\<close>, a \<open>uint32\<close>).
  The bit values are those of the fsnotify library.
\<close>

record fsnotify_Event =
  ev_Name :: string
  ev_Op :: "32 word"

definition fsnotify_Create :: "32 word" where "fsnotify_Create = 1"
definition fsnotify_Write :: "32 word" where "fsnotify_Write = 2"
definition fsnotify_Remove :: "32 word" where "fsnotify_Remove = 4"
definition fsnotify_Rename :: "32 word" where "fsnotify_Rename = 8"
definition fsnotify_Chmod :: "32 word" where "fsnotify_Chmod = 16"

definition pulsePointMapEventType :: "32 word \<Rightarrow> ChangeType" where
  "pulsePointMapEventType op =
     (if op AND fsnotify_Create = fsnotify_Create then ChangeTypeCreate
      else if op AND fsnotify_Write = fsnotify_Write then ChangeTypeModify
      else if op AND fsnotify_Remove = fsnotify_Remove then ChangeTypeDelete
      else if op AND fsnotify_Rename = fsnotify_Rename then ChangeTypeRename
      else if op AND fsnotify_Chmod = fsnotify_Chmod then ChangeTypeChmod
      else ChangeTypeUnknown)"

text \<open>
  The part of the watcher that the handling of one debounced event reads and writes:
  the watched paths, the hash algorithm and the hash cache. Timers, channels and
  locks are not state of this model.
\<close>

record PulsePointWatcher =
  paths :: "string \<rightharpoonup> bool"
  ignorePatterns :: "string list"
  hashAlgorithm :: string
  fileHashes :: "string \<rightharpoonup> string"

record FileInfo =
  fi_Size :: int
  fi_IsDir :: bool

text \<open>
  What the operating system and the libraries answer when the timer fires:
  \<open>os.Stat\<close>, the bytes of a file (\<open>os.Open\<close> and \<open>io.Copy\<close>, or their error), the two
  digests in hexadecimal, \<open>time.Now().Unix()\<close>, and the effect of
  \<open>pulsePointAddRecursive\<close>, which walks a new directory through \<open>filepath.Walk\<close>
  (its error is only logged).
\<close>

record WatcherEnv =
  env_Stat :: "string \<Rightarrow> go_error + FileInfo"
  env_ReadFile :: "string \<Rightarrow> go_error + string"
  env_md5_hex :: "string \<Rightarrow> string"
  env_sha256_hex :: "string \<Rightarrow> string"
  env_Now_Unix :: int
  env_AddRecursive :: "string \<Rightarrow> PulsePointWatcher \<Rightarrow> PulsePointWatcher"

definition pulsePointCalculateHash :: "PulsePointWatcher \<Rightarrow> WatcherEnv \<Rightarrow> string \<Rightarrow> go_error + string" where
  "pulsePointCalculateHash w env path =
     (case env_ReadFile env path of
        Inl err \<Rightarrow> Inl err
      | Inr content \<Rightarrow>
          if hashAlgorithm w = ''md5'' then Inr (env_md5_hex env content)
          else if hashAlgorithm w = ''sha256'' then Inr (env_sha256_hex env content)
          else Inl (PlainError (''unsupported hash algorithm: '' @ hashAlgorithm w)))"

text \<open>
  The tail of \<open>pulsePointProcessEvent\<close>: a created directory is added to the watcher,
  then the event is sent. \<open>Some e\<close> is the event offered on the events channel (the
  send loses only against the cancellation of the context); \<open>None\<close> is a return
  before the send.
\<close>

definition send_event :: "PulsePointWatcher \<Rightarrow> WatcherEnv \<Rightarrow> ChangeEvent \<Rightarrow> PulsePointWatcher \<times> ChangeEvent option" where
  "send_event w env changeEvent =
     (if ce_IsDir changeEvent \<and> ce_Type changeEvent = ChangeTypeCreate
        then (env_AddRecursive env (ce_Path changeEvent) w, Some changeEvent)
        else (w, Some changeEvent))"

definition pulsePointProcessEvent :: "PulsePointWatcher \<Rightarrow> WatcherEnv \<Rightarrow> fsnotify_Event \<Rightarrow> PulsePointWatcher \<times> ChangeEvent option" where
  "pulsePointProcessEvent w env event =
     (let changeType = pulsePointMapEventType (ev_Op event) in
      if changeType = ChangeTypeUnknown then (w, None)
      else
        let changeEvent = \<lparr> ce_Type = changeType, ce_Path = ev_Name event, ce_OldPath = [],
                             ce_Timestamp = env_Now_Unix env, ce_Size = 0, ce_Hash = [],
                             ce_IsDir = False \<rparr>
        in (case env_Stat env (ev_Name event) of
              Inl err \<Rightarrow> send_event w env changeEvent
            | Inr info \<Rightarrow>
                let sized = changeEvent\<lparr>ce_Size := fi_Size info, ce_IsDir := fi_IsDir info\<rparr> in
                if \<not> fi_IsDir info \<and> changeType \<noteq> ChangeTypeDelete
                  then (case pulsePointCalculateHash w env (ev_Name event) of
                          Inl err \<Rightarrow> send_event w env sized
                        | Inr hash \<Rightarrow>
                            if changeType = ChangeTypeModify
                               \<and> fileHashes w (ev_Name event) = Some hash
                              then (w, None)
                              else send_event
                                     (w\<lparr>fileHashes := (fileHashes w)(ev_Name event \<mapsto> hash)\<rparr>)
                                     env (sized\<lparr>ce_Hash := hash\<rparr>))
                  else send_event w env sized))"

text \<open>A watcher and a file system to run the definitions on.\<close>

definition test_watcher :: PulsePointWatcher where
  "test_watcher =
     \<lparr> paths = [''/w'' \<mapsto> True], ignorePatterns = [], hashAlgorithm = ''sha256'',
       fileHashes = [''/w/a.txt'' \<mapsto> ''sha:v1''] \<rparr>"

definition test_fs :: "string \<Rightarrow> WatcherEnv" where
  "test_fs content =
     \<lparr> env_Stat = (\<lambda>p. if p = ''/w/a.txt''
                          then Inr \<lparr> fi_Size = int (length content), fi_IsDir = False \<rparr>
                          else Inl (PlainError ''no such file or directory'')),
       env_ReadFile = (\<lambda>p. if p = ''/w/a.txt'' then Inr content
                              else Inl (PlainError ''no such file or directory'')),
       env_md5_hex = (\<lambda>c. ''md5:'' @ c),
       env_sha256_hex = (\<lambda>c. ''sha:'' @ c),
       env_Now_Unix = 1700000000,
       env_AddRecursive = (\<lambda>p w. w) \<rparr>"

definition write_a :: fsnotify_Event where
  "write_a = \<lparr> ev_Name = ''/w/a.txt'', ev_Op = fsnotify_Write \<rparr>"


section \<open>Strategy layer (internal/strategies)\<close>

subsection \<open>Files, results and the provider\<close>

text \<open>
  Of \<open>interfaces.File\<close> the fields the strategies fill; the others keep their zero
  values. \<open>ModifiedTime\<close> is an instant in nanoseconds.
\<close>

record File =
  f_Path :: string
  f_Size :: int
  f_Hash :: string
  f_ModifiedTime :: int
  f_IsFolder :: bool

record Metadata =
  md_Path :: string
  md_Size :: int
  md_Hash :: string
  md_ModifiedTime :: int
  md_IsFolder :: bool

record SyncErrorEntry =
  se_Path :: string
  se_Operation :: string
  se_Message :: string
  se_Timestamp :: int

record Conflict =
  cf_Path :: string
  cf_Type :: string
  cf_DetectedAt :: int

record SyncResult =
  StartTime :: int
  EndTime :: int
  FilesProcessed :: int
  FilesUploaded :: int
  FilesDownloaded :: int
  FilesDeleted :: int
  FilesSkipped :: int
  BytesTransferred :: int
  Errors :: "SyncErrorEntry list"
  Conflicts :: "Conflict list"
  Success :: bool

record StrategyConfig =
  ConflictResolution :: string
  IgnorePatterns :: "string list"
  MaxFileSize :: int
  PreserveDeleted :: bool
  VersionControl :: bool

definition ResolutionKeepLocal :: string where "ResolutionKeepLocal = ''keep_local''"
definition ResolutionKeepBoth :: string where "ResolutionKeepBoth = ''keep_both''"

text \<open>
  \<open>CloudProvider\<close> is an interface: any implementation, with a state \<open>'p\<close> of its
  own, gives the four operations the strategies call. An operation returns what the
  Go method returns (both components of a pair result, as Go allows any combination)
  and the provider's next state.
\<close>

record 'p CloudProvider =
  prov_Upload :: "File \<Rightarrow> 'p \<Rightarrow> go_error option \<times> 'p"
  prov_Delete :: "string \<Rightarrow> 'p \<Rightarrow> go_error option \<times> 'p"
  prov_List :: "string \<Rightarrow> 'p \<Rightarrow> (File list \<times> go_error option) \<times> 'p"
  prov_GetMetadata :: "string \<Rightarrow> 'p \<Rightarrow> (Metadata option \<times> go_error option) \<times> 'p"

text \<open>
  What a strategy runs against: the provider, the clock (\<open>time.Now()\<close> read for the
  \<open>n\<close>-th time, in nanoseconds), the rendering of an instant in the layout
  \<open>20060102_150405\<close>, and the functions of \<open>path/filepath\<close>.
\<close>

record 'p StrategyEnv =
  provider :: "'p CloudProvider"
  clock :: "nat \<Rightarrow> int"
  format_time :: "int \<Rightarrow> string"
  filepath_Dir :: "string \<Rightarrow> string"
  filepath_Base :: "string \<Rightarrow> string"
  filepath_Ext :: "string \<Rightarrow> string"
  filepath_Join :: "string \<Rightarrow> string \<Rightarrow> string"

text \<open>
  The world a strategy changes: the provider's state, the calls made on the provider
  so far, in order, and how often the clock was read.
\<close>

datatype provider_call =
    CallUpload File
  | CallDelete string
  | CallList string
  | CallGetMetadata string

record 'p world =
  remote :: 'p
  calls :: "provider_call list"
  ticks :: nat

definition time_Now :: "'p StrategyEnv \<Rightarrow> 'p world \<Rightarrow> int \<times> 'p world" where
  "time_Now env w = (clock env (ticks w), w\<lparr>ticks := Suc (ticks w)\<rparr>)"

definition do_Upload :: "'p StrategyEnv \<Rightarrow> File \<Rightarrow> 'p world \<Rightarrow> go_error option \<times> 'p world" where
  "do_Upload env file w =
     (case prov_Upload (provider env) file (remote w) of
        (err, r) \<Rightarrow> (err, w\<lparr>remote := r, calls := calls w @ [CallUpload file]\<rparr>))"

definition do_Delete :: "'p StrategyEnv \<Rightarrow> string \<Rightarrow> 'p world \<Rightarrow> go_error option \<times> 'p world" where
  "do_Delete env path w =
     (case prov_Delete (provider env) path (remote w) of
        (err, r) \<Rightarrow> (err, w\<lparr>remote := r, calls := calls w @ [CallDelete path]\<rparr>))"

definition do_List :: "'p StrategyEnv \<Rightarrow> string \<Rightarrow> 'p world \<Rightarrow> (File list \<times> go_error option) \<times> 'p world" where
  "do_List env folder w =
     (case prov_List (provider env) folder (remote w) of
        (res, r) \<Rightarrow> (res, w\<lparr>remote := r, calls := calls w @ [CallList folder]\<rparr>))"

definition do_GetMetadata :: "'p StrategyEnv \<Rightarrow> string \<Rightarrow> 'p world \<Rightarrow> (Metadata option \<times> go_error option) \<times> 'p world" where
  "do_GetMetadata env path w =
     (case prov_GetMetadata (provider env) path (remote w) of
        (res, r) \<Rightarrow> (res, w\<lparr>remote := r, calls := calls w @ [CallGetMetadata path]\<rparr>))"

fun is_delete_call :: "provider_call \<Rightarrow> bool" where
  "is_delete_call (CallDelete path) = True"
| "is_delete_call c = False"

definition new_result :: "int \<Rightarrow> SyncResult" where
  "new_result start =
     \<lparr> StartTime = start, EndTime = 0, FilesProcessed = 0, FilesUploaded = 0,
       FilesDownloaded = 0, FilesDeleted = 0, FilesSkipped = 0, BytesTransferred = 0,
       Errors = [], Conflicts = [], Success = True \<rparr>"

definition file_of_change :: "string \<Rightarrow> ChangeEvent \<Rightarrow> File" where
  "file_of_change remotePath change =
     \<lparr> f_Path = remotePath, f_Size = ce_Size change, f_Hash = ce_Hash change,
       f_ModifiedTime = ce_Timestamp change, f_IsFolder = ce_IsDir change \<rparr>"

definition error_entry :: "ChangeEvent \<Rightarrow> go_error \<Rightarrow> int \<Rightarrow> SyncErrorEntry" where
  "error_entry change err now =
     \<lparr> se_Path = ce_Path change, se_Operation = ce_Type change,
       se_Message = error_string err, se_Timestamp = now \<rparr>"

definition delete_event :: "string \<Rightarrow> ChangeEvent" where
  "delete_event path =
     \<lparr> ce_Type = ChangeTypeDelete, ce_Path = path, ce_OldPath = [], ce_Timestamp = 0,
       ce_Size = 0, ce_Hash = [], ce_IsDir = False \<rparr>"

subsection \<open>One-way (PulsePointOneWayStrategy)\<close>

definition NewPulsePointOneWayStrategy :: "StrategyConfig option \<Rightarrow> StrategyConfig" where
  "NewPulsePointOneWayStrategy config =
     (case config of
        None \<Rightarrow> \<lparr> ConflictResolution = ResolutionKeepLocal, IgnorePatterns = [],
                  MaxFileSize = 0, PreserveDeleted = False, VersionControl = False \<rparr>
      | Some c \<Rightarrow> c)"

definition oneway_uploadFile ::
  "'p StrategyEnv \<Rightarrow> StrategyConfig \<Rightarrow> ChangeEvent \<Rightarrow> SyncResult \<Rightarrow> 'p world
    \<Rightarrow> go_error option \<times> SyncResult \<times> 'p world" where
  "oneway_uploadFile env cfg change result w =
     (if MaxFileSize cfg > 0 \<and> ce_Size change > MaxFileSize cfg
        then (None, result\<lparr>FilesSkipped := FilesSkipped result + 1\<rparr>, w)
      else (case do_Upload env (file_of_change (ce_Path change) change) w of
              (Some err, w1) \<Rightarrow>
                (Some (NewSyncError (''failed to upload '' @ ce_Path change) (Some err)),
                 result, w1)
            | (None, w1) \<Rightarrow>
                (None, result\<lparr>FilesUploaded := FilesUploaded result + 1,
                               BytesTransferred := BytesTransferred result + ce_Size change\<rparr>,
                 w1)))"

definition oneway_deleteFile ::
  "'p StrategyEnv \<Rightarrow> ChangeEvent \<Rightarrow> SyncResult \<Rightarrow> 'p world
    \<Rightarrow> go_error option \<times> SyncResult \<times> 'p world" where
  "oneway_deleteFile env change result w =
     (case do_Delete env (ce_Path change) w of
        (Some err, w1) \<Rightarrow>
          (Some (NewSyncError (''failed to delete '' @ ce_Path change) (Some err)), result, w1)
      | (None, w1) \<Rightarrow> (None, result\<lparr>FilesDeleted := FilesDeleted result + 1\<rparr>, w1))"

definition oneway_processChange ::
  "'p StrategyEnv \<Rightarrow> StrategyConfig \<Rightarrow> ChangeEvent \<Rightarrow> SyncResult \<Rightarrow> 'p world
    \<Rightarrow> go_error option \<times> SyncResult \<times> 'p world" where
  "oneway_processChange env cfg change result0 w =
     (let result = result0\<lparr>FilesProcessed := FilesProcessed result0 + 1\<rparr> in
      if ce_Type change = ChangeTypeCreate \<or> ce_Type change = ChangeTypeModify
        then oneway_uploadFile env cfg change result w
      else if ce_Type change = ChangeTypeDelete
        then (if PreserveDeleted cfg
                then (None, result\<lparr>FilesSkipped := FilesSkipped result + 1\<rparr>, w)
                else oneway_deleteFile env change result w)
      else if ce_Type change = ChangeTypeRename
        then (case oneway_deleteFile env (delete_event (ce_OldPath change)) result w of
                (Some err, result1, w1) \<Rightarrow> (Some err, result1, w1)
              | (None, result1, w1) \<Rightarrow> oneway_uploadFile env cfg change result1 w1)
      else (None, result\<lparr>FilesSkipped := FilesSkipped result + 1\<rparr>, w))"

fun oneway_changes ::
  "'p StrategyEnv \<Rightarrow> StrategyConfig \<Rightarrow> ChangeEvent list \<Rightarrow> SyncResult \<Rightarrow> 'p world
    \<Rightarrow> SyncResult \<times> 'p world" where
  "oneway_changes env cfg [] result w = (result, w)"
| "oneway_changes env cfg (change # rest) result w =
     (case oneway_processChange env cfg change result w of
        (None, result1, w1) \<Rightarrow> oneway_changes env cfg rest result1 w1
      | (Some err, result1, w1) \<Rightarrow>
          (case time_Now env w1 of
             (now, w2) \<Rightarrow>
               oneway_changes env cfg rest
                 (result1\<lparr>Errors := Errors result1 @ [error_entry change err now],
                           Success := False\<rparr>) w2))"

definition oneway_Sync ::
  "'p StrategyEnv \<Rightarrow> StrategyConfig \<Rightarrow> string \<Rightarrow> string \<Rightarrow> ChangeEvent list \<Rightarrow> 'p world
    \<Rightarrow> SyncResult \<times> 'p world" where
  "oneway_Sync env cfg source destination changes w =
     (case time_Now env w of
        (start, w1) \<Rightarrow>
          (case oneway_changes env cfg changes (new_result start) w1 of
             (result, w2) \<Rightarrow>
               (case time_Now env w2 of
                  (finish, w3) \<Rightarrow> (result\<lparr>EndTime := finish\<rparr>, w3))))"

subsection \<open>Mirror (PulsePointMirrorStrategy)\<close>

definition NewPulsePointMirrorStrategy :: "StrategyConfig option \<Rightarrow> StrategyConfig" where
  "NewPulsePointMirrorStrategy config =
     (case config of
        None \<Rightarrow> \<lparr> ConflictResolution = ResolutionKeepLocal, IgnorePatterns = [],
                  MaxFileSize = 0, PreserveDeleted = False, VersionControl = False \<rparr>
      | Some c \<Rightarrow> c\<lparr>PreserveDeleted := False\<rparr>)"

definition mirror_uploadFile ::
  "'p StrategyEnv \<Rightarrow> StrategyConfig \<Rightarrow> ChangeEvent \<Rightarrow> SyncResult \<Rightarrow> 'p world
    \<Rightarrow> go_error option \<times> SyncResult \<times> 'p world" where
  "mirror_uploadFile env cfg change result w =
     (if MaxFileSize cfg > 0 \<and> ce_Size change > MaxFileSize cfg
        then (None, result\<lparr>FilesSkipped := FilesSkipped result + 1\<rparr>, w)
      else (case do_Upload env (file_of_change (ce_Path change) change) w of
              (Some err, w1) \<Rightarrow>
                (Some (NewSyncError (''failed to upload '' @ ce_Path change) (Some err)),
                 result, w1)
            | (None, w1) \<Rightarrow>
                (None, result\<lparr>FilesUploaded := FilesUploaded result + 1,
                               BytesTransferred := BytesTransferred result + ce_Size change\<rparr>,
                 w1)))"

definition mirror_deleteFile ::
  "'p StrategyEnv \<Rightarrow> ChangeEvent \<Rightarrow> SyncResult \<Rightarrow> 'p world
    \<Rightarrow> go_error option \<times> SyncResult \<times> 'p world" where
  "mirror_deleteFile env change result w =
     (case do_Delete env (ce_Path change) w of
        (Some err, w1) \<Rightarrow>
          if IsNotFoundError err then (None, result, w1)
          else (Some (NewSyncError (''failed to delete '' @ ce_Path change) (Some err)),
                result, w1)
      | (None, w1) \<Rightarrow> (None, result\<lparr>FilesDeleted := FilesDeleted result + 1\<rparr>, w1))"

definition mirror_processChange ::
  "'p StrategyEnv \<Rightarrow> StrategyConfig \<Rightarrow> ChangeEvent \<Rightarrow> SyncResult \<Rightarrow> 'p world
    \<Rightarrow> go_error option \<times> SyncResult \<times> 'p world" where
  "mirror_processChange env cfg change result0 w =
     (let result = result0\<lparr>FilesProcessed := FilesProcessed result0 + 1\<rparr> in
      if ce_Type change = ChangeTypeCreate \<or> ce_Type change = ChangeTypeModify
        then mirror_uploadFile env cfg change result w
      else if ce_Type change = ChangeTypeDelete
        then mirror_deleteFile env change result w
      else if ce_Type change = ChangeTypeRename
        then (case mirror_deleteFile env (delete_event (ce_OldPath change)) result w of
                (Some err, result1, w1) \<Rightarrow> (Some err, result1, w1)
              | (None, result1, w1) \<Rightarrow> mirror_uploadFile env cfg change result1 w1)
      else (None, result\<lparr>FilesSkipped := FilesSkipped result + 1\<rparr>, w))"

fun mirror_changes ::
  "'p StrategyEnv \<Rightarrow> StrategyConfig \<Rightarrow> ChangeEvent list \<Rightarrow> SyncResult \<Rightarrow> 'p world
    \<Rightarrow> SyncResult \<times> 'p world" where
  "mirror_changes env cfg [] result w = (result, w)"
| "mirror_changes env cfg (change # rest) result w =
     (case mirror_processChange env cfg change result w of
        (None, result1, w1) \<Rightarrow> mirror_changes env cfg rest result1 w1
      | (Some err, result1, w1) \<Rightarrow>
          (case time_Now env w1 of
             (now, w2) \<Rightarrow>
               mirror_changes env cfg rest
                 (result1\<lparr>Errors := Errors result1 @ [error_entry change err now],
                           Success := False\<rparr>) w2))"

text \<open>
  \<open>cleanupRemote\<close> lists the remote root and logs the number of entries. The
  comparison with the local files and the deletion of the extras are a TODO in the
  source; the \<open>localPath\<close> argument is not read.
\<close>

definition cleanupRemote ::
  "'p StrategyEnv \<Rightarrow> string \<Rightarrow> SyncResult \<Rightarrow> 'p world \<Rightarrow> go_error option \<times> SyncResult \<times> 'p world" where
  "cleanupRemote env localPath result w =
     (case do_List env ''/'' w of
        ((remoteFiles, Some err), w1) \<Rightarrow>
          (Some (NewSyncError ''failed to list remote files'' (Some err)), result, w1)
      | ((remoteFiles, None), w1) \<Rightarrow> (None, result, w1))"

definition mirror_Sync ::
  "'p StrategyEnv \<Rightarrow> StrategyConfig \<Rightarrow> string \<Rightarrow> string \<Rightarrow> ChangeEvent list \<Rightarrow> 'p world
    \<Rightarrow> SyncResult \<times> 'p world" where
  "mirror_Sync env cfg source destination changes w =
     (case time_Now env w of
        (start, w1) \<Rightarrow>
          (case mirror_changes env cfg changes (new_result start) w1 of
             (result, w2) \<Rightarrow>
               (case cleanupRemote env source result w2 of
                  (err, result1, w3) \<Rightarrow>
                    (case time_Now env w3 of
                       (finish, w4) \<Rightarrow>
                         ((if err = None then result1 else result1\<lparr>Success := False\<rparr>)
                            \<lparr>EndTime := finish\<rparr>, w4)))))"

subsection \<open>Backup (PulsePointBackupStrategy)\<close>

definition NewPulsePointBackupStrategy :: "StrategyConfig option \<Rightarrow> StrategyConfig" where
  "NewPulsePointBackupStrategy config =
     (case config of
        None \<Rightarrow> \<lparr> ConflictResolution = ResolutionKeepBoth, IgnorePatterns = [],
                  MaxFileSize = 0, PreserveDeleted = True, VersionControl = True \<rparr>
      | Some c \<Rightarrow> c\<lparr>PreserveDeleted := True, VersionControl := True\<rparr>)"

text \<open>
  \<open>base[:len(base)-len(ext)]\<close>: \<open>filepath.Ext\<close> returns a suffix of its argument, so
  the slice bound is never negative.
\<close>

definition generateVersionedPath :: "'p StrategyEnv \<Rightarrow> string \<Rightarrow> string \<Rightarrow> string" where
  "generateVersionedPath env originalPath timestamp =
     (let dir = filepath_Dir env originalPath;
          base = filepath_Base env originalPath;
          ext = filepath_Ext env base;
          nameWithoutExt = take (length base - length ext) base;
          versionedName = nameWithoutExt @ ''_v'' @ timestamp @ ext
      in if dir = ''.'' then versionedName else filepath_Join env dir versionedName)"

definition backup_remotePath ::
  "'p StrategyEnv \<Rightarrow> StrategyConfig \<Rightarrow> ChangeEvent \<Rightarrow> string \<Rightarrow> 'p world \<Rightarrow> string \<times> 'p world" where
  "backup_remotePath env cfg change backupTimestamp w =
     (if VersionControl cfg
        then (case do_GetMetadata env (ce_Path change) w of
                ((metadata, err), w1) \<Rightarrow>
                  (if err = None \<and> metadata \<noteq> None
                     then generateVersionedPath env (ce_Path change) backupTimestamp
                     else ce_Path change, w1))
        else (ce_Path change, w))"

text \<open>
  "The remote already has the path", as \<open>backupFile\<close> decides it: the provider's
  metadata lookup, asked in the provider state \<open>r\<close>, returns metadata and no error.
\<close>

definition remote_has :: "'p StrategyEnv \<Rightarrow> string \<Rightarrow> 'p \<Rightarrow> bool" where
  "remote_has env path r =
     (case fst (prov_GetMetadata (provider env) path r) of
        (metadata, err) \<Rightarrow> err = None \<and> metadata \<noteq> None)"

definition backupFile ::
  "'p StrategyEnv \<Rightarrow> StrategyConfig \<Rightarrow> ChangeEvent \<Rightarrow> string \<Rightarrow> SyncResult \<Rightarrow> 'p world
    \<Rightarrow> go_error option \<times> SyncResult \<times> 'p world" where
  "backupFile env cfg change backupTimestamp result w =
     (if MaxFileSize cfg > 0 \<and> ce_Size change > MaxFileSize cfg
        then (None, result\<lparr>FilesSkipped := FilesSkipped result + 1\<rparr>, w)
      else (case backup_remotePath env cfg change backupTimestamp w of
              (remotePath, w1) \<Rightarrow>
                (case do_Upload env (file_of_change remotePath change) w1 of
                   (Some err, w2) \<Rightarrow>
                     (Some (NewSyncError (''failed to backup '' @ ce_Path change) (Some err)),
                      result, w2)
                 | (None, w2) \<Rightarrow>
                     (None, result\<lparr>FilesUploaded := FilesUploaded result + 1,
                                    BytesTransferred := BytesTransferred result + ce_Size change\<rparr>,
                      w2))))"

definition marker_file :: "string \<Rightarrow> int \<Rightarrow> File" where
  "marker_file markerPath now =
     \<lparr> f_Path = markerPath, f_Size = 0, f_Hash = [], f_ModifiedTime = now,
       f_IsFolder = False \<rparr>"

text \<open>A failed upload of a marker is logged and not returned.\<close>

definition markDeleted ::
  "'p StrategyEnv \<Rightarrow> ChangeEvent \<Rightarrow> string \<Rightarrow> SyncResult \<Rightarrow> 'p world
    \<Rightarrow> go_error option \<times> SyncResult \<times> 'p world" where
  "markDeleted env change backupTimestamp result w =
     (case time_Now env w of
        (now, w1) \<Rightarrow>
          (case do_Upload env
                  (marker_file (ce_Path change @ ''.deleted_'' @ backupTimestamp) now) w1 of
             (err, w2) \<Rightarrow>
               (None, result\<lparr>FilesProcessed := FilesProcessed result + 1\<rparr>, w2)))"

definition markMoved ::
  "'p StrategyEnv \<Rightarrow> string \<Rightarrow> string \<Rightarrow> string \<Rightarrow> SyncResult \<Rightarrow> 'p world
    \<Rightarrow> go_error option \<times> SyncResult \<times> 'p world" where
  "markMoved env oldPath newPath backupTimestamp result w =
     (case time_Now env w of
        (now, w1) \<Rightarrow>
          (case do_Upload env (marker_file (oldPath @ ''.moved_'' @ backupTimestamp) now) w1 of
             (err, w2) \<Rightarrow> (None, result, w2)))"

definition backup_processChange ::
  "'p StrategyEnv \<Rightarrow> StrategyConfig \<Rightarrow> ChangeEvent \<Rightarrow> string \<Rightarrow> SyncResult \<Rightarrow> 'p world
    \<Rightarrow> go_error option \<times> SyncResult \<times> 'p world" where
  "backup_processChange env cfg change backupTimestamp result0 w =
     (let result = result0\<lparr>FilesProcessed := FilesProcessed result0 + 1\<rparr> in
      if ce_Type change = ChangeTypeCreate \<or> ce_Type change = ChangeTypeModify
        then backupFile env cfg change backupTimestamp result w
      else if ce_Type change = ChangeTypeDelete
        then markDeleted env change backupTimestamp result w
      else if ce_Type change = ChangeTypeRename
        then (case markMoved env (ce_OldPath change) (ce_Path change) backupTimestamp result w of
                (Some err, result1, w1) \<Rightarrow> (Some err, result1, w1)
              | (None, result1, w1) \<Rightarrow> backupFile env cfg change backupTimestamp result1 w1)
      else (None, result\<lparr>FilesSkipped := FilesSkipped result + 1\<rparr>, w))"

text \<open>The loop of \<open>Sync\<close>: an error is appended to \<open>Errors\<close>; \<open>Success\<close> is not touched.\<close>

fun backup_changes ::
  "'p StrategyEnv \<Rightarrow> StrategyConfig \<Rightarrow> ChangeEvent list \<Rightarrow> string \<Rightarrow> SyncResult \<Rightarrow> 'p world
    \<Rightarrow> SyncResult \<times> 'p world" where
  "backup_changes env cfg [] backupTimestamp result w = (result, w)"
| "backup_changes env cfg (change # rest) backupTimestamp result w =
     (case backup_processChange env cfg change backupTimestamp result w of
        (None, result1, w1) \<Rightarrow> backup_changes env cfg rest backupTimestamp result1 w1
      | (Some err, result1, w1) \<Rightarrow>
          (case time_Now env w1 of
             (now, w2) \<Rightarrow>
               backup_changes env cfg rest backupTimestamp
                 (result1\<lparr>Errors := Errors result1 @ [error_entry change err now]\<rparr>) w2))"

definition backup_Sync ::
  "'p StrategyEnv \<Rightarrow> StrategyConfig \<Rightarrow> string \<Rightarrow> string \<Rightarrow> ChangeEvent list \<Rightarrow> 'p world
    \<Rightarrow> SyncResult \<times> 'p world" where
  "backup_Sync env cfg source destination changes w =
     (case time_Now env w of
        (start, w1) \<Rightarrow>
          (case time_Now env w1 of
             (stamp, w2) \<Rightarrow>
               (case backup_changes env cfg changes (format_time env stamp)
                       (new_result start) w2 of
                  (result, w3) \<Rightarrow>
                    (case time_Now env w3 of
                       (finish, w4) \<Rightarrow> (result\<lparr>EndTime := finish\<rparr>, w4)))))"

subsection \<open>Providers and inputs to run the strategies on\<close>

text \<open>
  An in-memory remote: the state is the list of stored files. \<open>fail_uploads\<close> makes
  every upload fail, as an unreachable remote does.
\<close>

definition memory_provider :: "bool \<Rightarrow> (File list) CloudProvider" where
  "memory_provider fail_uploads =
     \<lparr> prov_Upload = (\<lambda>file fs.
          if fail_uploads then (Some (PlainError ''connection refused''), fs)
          else (None, filter (\<lambda>g. f_Path g \<noteq> f_Path file) fs @ [file])),
       prov_Delete = (\<lambda>path fs. (None, filter (\<lambda>g. f_Path g \<noteq> path) fs)),
       prov_List = (\<lambda>folder fs. ((fs, None), fs)),
       prov_GetMetadata = (\<lambda>path fs.
          (case find (\<lambda>g. f_Path g = path) fs of
             None \<Rightarrow> ((None, None), fs)
           | Some g \<Rightarrow>
               ((Some \<lparr> md_Path = f_Path g, md_Size = f_Size g, md_Hash = f_Hash g,
                         md_ModifiedTime = f_ModifiedTime g, md_IsFolder = f_IsFolder g \<rparr>,
                 None), fs))) \<rparr>"

definition test_env :: "bool \<Rightarrow> (File list) StrategyEnv" where
  "test_env fail_uploads =
     \<lparr> provider = memory_provider fail_uploads,
       clock = (\<lambda>n. 1000 * int n),
       format_time = (\<lambda>t. ''20240101_000000''),
       filepath_Dir = (\<lambda>p. ''.''),
       filepath_Base = (\<lambda>p. p),
       filepath_Ext = (\<lambda>p. if CHR ''.'' \<in> set p
                              then CHR ''.'' # rev (takeWhile (\<lambda>c. c \<noteq> CHR ''.'') (rev p))
                              else []),
       filepath_Join = (\<lambda>d f. d @ ''/'' @ f) \<rparr>"

definition remote_with :: "File list \<Rightarrow> (File list) world" where
  "remote_with fs = \<lparr> remote = fs, calls = [], ticks = 0 \<rparr>"

definition stored :: "string \<Rightarrow> File" where
  "stored path =
     \<lparr> f_Path = path, f_Size = 1, f_Hash = ''h'', f_ModifiedTime = 0, f_IsFolder = False \<rparr>"

definition change_of :: "ChangeType \<Rightarrow> string \<Rightarrow> string \<Rightarrow> int \<Rightarrow> ChangeEvent" where
  "change_of ty path oldPath bytes =
     \<lparr> ce_Type = ty, ce_Path = path, ce_OldPath = oldPath, ce_Timestamp = 7,
       ce_Size = bytes, ce_Hash = ''h'', ce_IsDir = False \<rparr>"

definition limit_5 :: StrategyConfig where
  "limit_5 =
     NewPulsePointBackupStrategy
       (Some \<lparr> ConflictResolution = ResolutionKeepLocal, IgnorePatterns = [],
                MaxFileSize = 5, PreserveDeleted = False, VersionControl = False \<rparr>)"


section \<open>Sync engine (package sync: the engine)\<close>

subsection \<open>The sync state (pkg/models/state.go and internal/core/interfaces)\<close>

text \<open>
  \<open>models.SyncState\<close>, the state the engine keeps: the fields the engine and the
  state manager copy, and those the lifecycle writes. \<open>OperationProgress\<close> is a
  \<open>float64\<close> that only ever holds 0 or 100 here. The remaining fields (schedule,
  ignored and conflict counts, warnings, configuration snapshot, metadata) are not
  touched by the code modelled and are left out.
\<close>

record ModelSyncState =
  ms_Version :: string
  ms_LastSyncTime :: int
  ms_LastSuccessTime :: int
  ms_TotalFiles :: int
  ms_SyncedFiles :: int
  ms_PendingFiles :: int
  ms_FailedFiles :: int
  ms_TotalBytes :: int
  ms_SyncedBytes :: int
  ms_CurrentOperation :: string
  ms_OperationProgress :: real
  ms_OperationStarted :: int
  ms_IsRunning :: bool
  ms_IsPaused :: bool
  ms_ConsecutiveErrors :: int
  ms_Errors :: "string list"

text \<open>\<open>interfaces.SyncState\<close>, what the state manager stores and returns.\<close>

record SyncState =
  ss_Version :: string
  ss_LastSyncTime :: int
  ss_LastSuccessTime :: int
  ss_TotalFiles :: int
  ss_SyncedFiles :: int
  ss_PendingFiles :: int
  ss_FailedFiles :: int
  ss_TotalBytes :: int
  ss_SyncedBytes :: int
  ss_CurrentOperation :: string
  ss_IsRunning :: bool
  ss_Errors :: "string list"

definition NewSyncState :: ModelSyncState where
  "NewSyncState =
     \<lparr> ms_Version = ''1.0.0'', ms_LastSyncTime = 0, ms_LastSuccessTime = 0, ms_TotalFiles = 0,
       ms_SyncedFiles = 0, ms_PendingFiles = 0, ms_FailedFiles = 0, ms_TotalBytes = 0,
       ms_SyncedBytes = 0, ms_CurrentOperation = [], ms_OperationProgress = 0,
       ms_OperationStarted = 0, ms_IsRunning = False, ms_IsPaused = False,
       ms_ConsecutiveErrors = 0, ms_Errors = [] \<rparr>"

definition StartOperation :: "ModelSyncState \<Rightarrow> string \<Rightarrow> int \<Rightarrow> ModelSyncState" where
  "StartOperation s operation now =
     s\<lparr>ms_CurrentOperation := operation, ms_OperationStarted := now,
       ms_OperationProgress := 0, ms_IsRunning := True, ms_IsPaused := False\<rparr>"

text \<open>\<open>EndOperation\<close> reads the clock twice: \<open>t1\<close> on success, then \<open>t2\<close>.\<close>

definition EndOperation :: "ModelSyncState \<Rightarrow> bool \<Rightarrow> int \<Rightarrow> int \<Rightarrow> ModelSyncState" where
  "EndOperation s success t1 t2 =
     (let s1 = s\<lparr>ms_CurrentOperation := [], ms_OperationProgress := 100, ms_IsRunning := False\<rparr>;
          s2 = (if success then s1\<lparr>ms_LastSuccessTime := t1, ms_ConsecutiveErrors := 0\<rparr>
                else s1\<lparr>ms_ConsecutiveErrors := ms_ConsecutiveErrors s1 + 1\<rparr>)
      in s2\<lparr>ms_LastSyncTime := t2\<rparr>)"

text \<open>The field-by-field copy of \<open>saveState\<close> (engine) and \<open>LoadState\<close> (state manager).\<close>

definition to_interface_state :: "ModelSyncState \<Rightarrow> SyncState" where
  "to_interface_state s =
     \<lparr> ss_Version = ms_Version s, ss_LastSyncTime = ms_LastSyncTime s,
       ss_LastSuccessTime = ms_LastSuccessTime s, ss_TotalFiles = ms_TotalFiles s,
       ss_SyncedFiles = ms_SyncedFiles s, ss_PendingFiles = ms_PendingFiles s,
       ss_FailedFiles = ms_FailedFiles s, ss_TotalBytes = ms_TotalBytes s,
       ss_SyncedBytes = ms_SyncedBytes s, ss_CurrentOperation = ms_CurrentOperation s,
       ss_IsRunning = ms_IsRunning s, ss_Errors = ms_Errors s \<rparr>"

subsection \<open>Lifecycle\<close>

text \<open>
  The engine's runtime state: the two flags, the current sync state, whether each of
  the two signal channels is closed, and the states handed to the state manager's
  \<open>SaveState\<close> so far (its error is not looked at). The watcher is an interface: what its
  \<open>Start\<close> and \<open>Stop\<close> return is an argument. The two loops that \<open>Start\<close> spawns only
  read this state and are not modelled.
\<close>

record PulsePointEngine =
  isRunning :: bool
  isPaused :: bool
  currentState :: ModelSyncState
  stopChan_closed :: bool
  pauseChan_closed :: bool
  saved_states :: "SyncState list"

text \<open>A call returns, or panics (\<open>close\<close> of a channel that is already closed).\<close>

datatype 'a outcome = Returns 'a | Panics string

definition saveState :: "PulsePointEngine \<Rightarrow> PulsePointEngine" where
  "saveState e = e\<lparr>saved_states := saved_states e @ [to_interface_state (currentState e)]\<rparr>"

text \<open>The engine as \<open>NewPulsePointEngine\<close> builds it, before any stored state is loaded.\<close>

definition new_engine :: PulsePointEngine where
  "new_engine =
     \<lparr> isRunning = False, isPaused = False, currentState = NewSyncState,
       stopChan_closed = False, pauseChan_closed = False, saved_states = [] \<rparr>"

definition Start ::
  "PulsePointEngine \<Rightarrow> int \<Rightarrow> go_error option \<Rightarrow> (go_error option \<times> PulsePointEngine) outcome" where
  "Start e now watcherStart =
     (if isRunning e then Returns (Some (NewSyncError ''engine already running'' None), e)
      else
        let e1 = e\<lparr>isRunning := True, isPaused := False\<rparr> in
        (case watcherStart of
           Some err \<Rightarrow>
             Returns (Some (NewSyncError ''failed to start file watcher'' (Some err)),
                      e1\<lparr>isRunning := False\<rparr>)
         | None \<Rightarrow>
             Returns (None,
               saveState (e1\<lparr>currentState :=
                 StartOperation (currentState e1) ''sync_engine_running'' now\<rparr>))))"

definition Stop ::
  "PulsePointEngine \<Rightarrow> int \<Rightarrow> int \<Rightarrow> go_error option \<Rightarrow> (go_error option \<times> PulsePointEngine) outcome" where
  "Stop e t1 t2 watcherStop =
     (if \<not> isRunning e then Returns (None, e)
      else if stopChan_closed e then Panics ''close of closed channel''
      else
        let e1 = e\<lparr>stopChan_closed := True\<rparr>;
            e2 = e1\<lparr>isRunning := False, isPaused := False\<rparr>
        in Returns (None,
             saveState (e2\<lparr>currentState := EndOperation (currentState e2) True t1 t2\<rparr>)))"

definition Pause :: "PulsePointEngine \<Rightarrow> (go_error option \<times> PulsePointEngine) outcome" where
  "Pause e =
     (if \<not> isRunning e then Returns (Some (NewSyncError ''engine not running'' None), e)
      else if isPaused e then Returns (Some (NewSyncError ''engine already paused'' None), e)
      else if pauseChan_closed e then Panics ''close of closed channel''
      else Returns (None,
             saveState (e\<lparr>isPaused := True, pauseChan_closed := True,
                          currentState := (currentState e)\<lparr>ms_IsPaused := True\<rparr>\<rparr>)))"

definition Resume :: "PulsePointEngine \<Rightarrow> (go_error option \<times> PulsePointEngine) outcome" where
  "Resume e =
     (if \<not> isRunning e then Returns (Some (NewSyncError ''engine not running'' None), e)
      else if \<not> isPaused e then Returns (Some (NewSyncError ''engine not paused'' None), e)
      else Returns (None,
             saveState (e\<lparr>isPaused := False, pauseChan_closed := False,
                          currentState := (currentState e)\<lparr>ms_IsPaused := False\<rparr>\<rparr>)))"

definition running_engine :: PulsePointEngine where
  "running_engine =
     saveState (new_engine\<lparr>isRunning := True,
       currentState := StartOperation NewSyncState ''sync_engine_running'' 5\<rparr>)"

subsection \<open>Metrics\<close>

text \<open>
  The counters are \<open>int64\<close> and wrap. The speeds are \<open>float64\<close>, modelled as real
  numbers: the arithmetic is exact here where the machine rounds.
  \<open>LastSyncDuration\<close> is a \<open>time.Duration\<close> in nanoseconds. \<open>CurrentFiles\<close>,
  \<open>CurrentBytes\<close> and \<open>StartTime\<close> are not written by the two recording functions and
  are left out.
\<close>

record SyncMetrics =
  TotalSyncs :: "64 word"
  SuccessfulSyncs :: "64 word"
  FailedSyncs :: "64 word"
  TotalFiles :: "64 word"
  TotalBytes :: "64 word"
  LastSyncDuration :: int
  AverageSpeed :: real
  CurrentSpeed :: real

definition new_metrics :: SyncMetrics where
  "new_metrics =
     \<lparr> TotalSyncs = 0, SuccessfulSyncs = 0, FailedSyncs = 0, TotalFiles = 0, TotalBytes = 0,
       LastSyncDuration = 0, AverageSpeed = 0, CurrentSpeed = 0 \<rparr>"

text \<open>
  The speed of one sync as \<open>recordSuccess\<close> computes it: megabytes over
  \<open>duration.Seconds()\<close>.
\<close>

definition sync_mbps :: "SyncResult \<Rightarrow> real" where
  "sync_mbps result =
     real_of_int (BytesTransferred result) / (1024 * 1024)
       / (real_of_int (EndTime result - StartTime result) / 1000000000)"

definition recordSuccess :: "SyncMetrics \<Rightarrow> SyncResult \<Rightarrow> SyncMetrics" where
  "recordSuccess m result =
     (let m1 = m\<lparr>TotalSyncs := TotalSyncs m + 1,
                  SuccessfulSyncs := SuccessfulSyncs m + 1,
                  TotalFiles := TotalFiles m + word_of_int (FilesProcessed result),
                  TotalBytes := TotalBytes m + word_of_int (BytesTransferred result)\<rparr>;
          duration = EndTime result - StartTime result;
          m2 = m1\<lparr>LastSyncDuration := duration\<rparr>
      in if duration > 0
           then m2\<lparr>CurrentSpeed := sync_mbps result,
                   AverageSpeed :=
                     (if AverageSpeed m2 = 0 then sync_mbps result
                      else (AverageSpeed m2 * real_of_int (sint (SuccessfulSyncs m2 - 1))
                              + sync_mbps result)
                           / real_of_int (sint (SuccessfulSyncs m2)))\<rparr>
           else m2)"

definition recordFailure :: "SyncMetrics \<Rightarrow> SyncMetrics" where
  "recordFailure m = m\<lparr>TotalSyncs := TotalSyncs m + 1, FailedSyncs := FailedSyncs m + 1\<rparr>"

text \<open>A sequence of calls on the metrics, as \<open>Sync\<close> makes them one after another.\<close>

datatype metrics_call = RecordSuccess SyncResult | RecordFailure

fun record_call :: "SyncMetrics \<Rightarrow> metrics_call \<Rightarrow> SyncMetrics" where
  "record_call m (RecordSuccess result) = recordSuccess m result"
| "record_call m RecordFailure = recordFailure m"

definition record_all :: "metrics_call list \<Rightarrow> SyncMetrics" where
  "record_all cs = foldl record_call new_metrics cs"

text \<open>A sync of \<open>bytes\<close> bytes that took one second.\<close>

definition one_second_sync :: "int \<Rightarrow> SyncResult" where
  "one_second_sync bytes =
     (new_result 0)\<lparr>EndTime := 1000000000, BytesTransferred := bytes\<rparr>"


section \<open>State store (package sync: the state manager)\<close>

text \<open>
  The embedded key-value database as the state manager sees it: open or closed, and
  named buckets of byte strings. A read-only transaction on a closed database fails.
\<close>

record BoltDB =
  db_open :: bool
  buckets :: "string \<rightharpoonup> (string \<rightharpoonup> string)"

definition BucketState :: string where "BucketState = ''state''"
definition BucketFileState :: string where "BucketFileState = ''file_state''"
definition BucketTransactions :: string where "BucketTransactions = ''transactions''"

text \<open>
  \<open>models.FileState\<close> and \<open>interfaces.FileState\<close> have the same fields and
  \<open>GetFileState\<close> copies each; one record stands for both (without the metadata map).
\<close>

record FileState =
  fs_Path :: string
  fs_LocalHash :: string
  fs_RemoteHash :: string
  fs_LocalModTime :: int
  fs_RemoteModTime :: int
  fs_Size :: int
  fs_Status :: string
  fs_LastSyncTime :: int
  fs_LastError :: string
  fs_RetryCount :: int
  fs_RemoteID :: string
  fs_Version :: int

record SyncTransaction =
  tx_ID :: string
  tx_StartTime :: int
  tx_EndTime :: int
  tx_Type :: string
  tx_Status :: string
  tx_FilesAffected :: "string list"
  tx_BytesTransferred :: int
  tx_Errors :: "string list"
  tx_Result :: "SyncResult option"

text \<open>\<open>json.Unmarshal\<close> into each of the three types: the value, or the decoding error.\<close>

record Codec =
  unmarshal_SyncState :: "string \<Rightarrow> go_error + ModelSyncState"
  unmarshal_FileState :: "string \<Rightarrow> go_error + FileState"
  unmarshal_Transaction :: "string \<Rightarrow> go_error + SyncTransaction"

text \<open>
  The read-only transaction the three getters share: the bucket must exist
  (\<open>missing\<close> is the message of the error otherwise); \<open>Get\<close> gives nil for a key the
  bucket does not hold.
\<close>

definition view_get :: "BoltDB \<Rightarrow> string \<Rightarrow> string \<Rightarrow> string \<Rightarrow> go_error + string option" where
  "view_get db bucket missing k =
     (if \<not> db_open db then Inl (PlainError ''database not open'')
      else (case buckets db bucket of
              None \<Rightarrow> Inl (PlainError missing)
            | Some b \<Rightarrow> Inr (b k)))"

definition LoadState :: "Codec \<Rightarrow> BoltDB \<Rightarrow> go_error + SyncState option" where
  "LoadState codec db =
     (case view_get db BucketState ''state bucket not found'' ''current'' of
        Inl err \<Rightarrow> Inl (NewDatabaseError ''failed to load state'' (Some err))
      | Inr None \<Rightarrow> Inr None
      | Inr (Some bytes) \<Rightarrow>
          (case unmarshal_SyncState codec bytes of
             Inl err \<Rightarrow> Inl (NewDatabaseError ''failed to unmarshal state'' (Some err))
           | Inr modelState \<Rightarrow> Inr (Some (to_interface_state modelState))))"

definition GetFileState :: "Codec \<Rightarrow> BoltDB \<Rightarrow> string \<Rightarrow> go_error + FileState option" where
  "GetFileState codec db path =
     (case view_get db BucketFileState ''file state bucket not found'' path of
        Inl err \<Rightarrow> Inl (NewDatabaseError ''failed to get file state'' (Some err))
      | Inr None \<Rightarrow> Inr None
      | Inr (Some bytes) \<Rightarrow>
          (case unmarshal_FileState codec bytes of
             Inl err \<Rightarrow> Inl (NewDatabaseError ''failed to unmarshal file state'' (Some err))
           | Inr modelFile \<Rightarrow> Inr (Some modelFile)))"

definition GetTransaction :: "Codec \<Rightarrow> BoltDB \<Rightarrow> string \<Rightarrow> go_error + SyncTransaction option" where
  "GetTransaction codec db ident =
     (case view_get db BucketTransactions ''transactions bucket not found'' ident of
        Inl err \<Rightarrow> Inl (NewDatabaseError ''failed to get transaction'' (Some err))
      | Inr None \<Rightarrow> Inr None
      | Inr (Some bytes) \<Rightarrow>
          (case unmarshal_Transaction codec bytes of
             Inl err \<Rightarrow> Inl (NewDatabaseError ''failed to unmarshal transaction'' (Some err))
           | Inr transaction \<Rightarrow> Inr (Some transaction)))"

text \<open>
  A database as \<open>Initialize\<close> leaves it (the three buckets exist, empty), and a codec
  that rejects every input.
\<close>

definition initialized_db :: BoltDB where
  "initialized_db =
     \<lparr> db_open = True,
       buckets = [BucketState \<mapsto> Map.empty, BucketFileState \<mapsto> Map.empty,
                  BucketTransactions \<mapsto> Map.empty] \<rparr>"

definition strict_codec :: Codec where
  "strict_codec =
     \<lparr> unmarshal_SyncState = (\<lambda>b. Inl (PlainError ''unexpected end of JSON input'')),
       unmarshal_FileState = (\<lambda>b. Inl (PlainError ''unexpected end of JSON input'')),
       unmarshal_Transaction = (\<lambda>b. Inl (PlainError ''unexpected end of JSON input'')) \<rparr>"


section \<open>Theorems\<close>

subsection \<open>Change queue\<close>

lemmas ChangeType_defs =
  ChangeTypeCreate_def ChangeTypeModify_def ChangeTypeDelete_def ChangeTypeRename_def
  ChangeTypeMove_def ChangeTypeChmod_def ChangeTypeTouch_def ChangeTypeTruncate_def

lemmas fixture_defs =
  queue_with_def create_a_def delete_a_def modify_a_def NewChangeEvent_def

text \<open>
  C1 (as amended). When \<open>Add\<close> accepts an event, that is the queue holds fewer than
  \<open>max_size\<close> events and the event's path is not in the processing set, and an event
  \<open>old\<close> is pending for the same path, then \<open>Add\<close> returns nil and exactly one event
  is pending for the path afterwards, the one the deduplication table names: \<open>new\<close>
  when it is a Delete, \<open>old\<close> for a Create followed by a Modify, and otherwise the
  event with the strictly newer timestamp (\<open>old\<close> on a tie). Nothing else changes.
\<close>

theorem Add_dedup_table:
  assumes "items q (q_Path new) = Some old"
      and "len_items q < maxSize q"
      and "\<not> is_processing q (q_Path new)"
  shows "Add q new =
           (None, q\<lparr>items := (items q)(q_Path new \<mapsto> spec_dedup_outcome old new)\<rparr>)"
proof (cases "pulsePointShouldReplace old new")
  case True
  then have "spec_dedup_outcome old new = new"
    by (auto simp: pulsePointShouldReplace_def spec_dedup_outcome_def newer_event_def
        split: if_splits)
  with True assms show ?thesis by (simp add: Add_def)
next
  case False
  then have "spec_dedup_outcome old new = old"
    by (auto simp: pulsePointShouldReplace_def spec_dedup_outcome_def newer_event_def
        split: if_splits)
  moreover have "(items q)(q_Path new \<mapsto> old) = items q"
    using assms(1) by (simp add: map_upd_triv)
  ultimately show ?thesis using False assms by (simp add: Add_def)
qed

text \<open>
  The theorem at a queue of capacity 10 that holds \<open>Create a.txt\<close>, when
  \<open>Modify a.txt\<close> arrives: the Create stays.
\<close>

theorem Add_dedup_table_witness:
  "items (queue_with create_a 10) (q_Path modify_a) = Some create_a \<and>
   len_items (queue_with create_a 10) < maxSize (queue_with create_a 10) \<and>
   \<not> is_processing (queue_with create_a 10) (q_Path modify_a) \<and>
   Add (queue_with create_a 10) modify_a = (None, queue_with create_a 10)"
proof -
  have a: "items (queue_with create_a 10) (q_Path modify_a) = Some create_a"
    by (simp add: fixture_defs)
  have b: "len_items (queue_with create_a 10) < maxSize (queue_with create_a 10)"
    by (simp add: len_items_def queue_with_def)
  have c: "\<not> is_processing (queue_with create_a 10) (q_Path modify_a)"
    by (simp add: is_processing_def queue_with_def)
  have d: "spec_dedup_outcome create_a modify_a = create_a"
    by (simp add: spec_dedup_outcome_def fixture_defs ChangeType_defs)
  have e: "(queue_with create_a 10)
             \<lparr>items := (items (queue_with create_a 10))(q_Path modify_a \<mapsto> create_a)\<rparr>
           = queue_with create_a 10"
    by (simp add: fixture_defs)
  from Add_dedup_table [OF a b c] a b c d e show ?thesis by simp
qed

text \<open>
  C1 as stated fails at a full queue: with \<open>max_size = 1\<close> and \<open>Create a.txt\<close>
  pending, \<open>Add\<close> of \<open>Delete a.txt\<close> returns the over-capacity error and the Create
  stays pending, where the table lets the Delete replace it.
\<close>

theorem Add_at_capacity_counterexample:
  "items (queue_with create_a 1) (q_Path delete_a) = Some create_a \<and>
   q_Type delete_a = ChangeTypeDelete \<and>
   fst (Add (queue_with create_a 1) delete_a) =
     Some (PlainError ''queue is at maximum capacity (1 items)'') \<and>
   items (snd (Add (queue_with create_a 1) delete_a)) (q_Path delete_a) = Some create_a \<and>
   spec_dedup_outcome create_a delete_a = delete_a \<and>
   create_a \<noteq> delete_a"
  by (simp add: Add_def len_items_def fixture_defs fmt_d_def spec_dedup_outcome_def)

text \<open>
  C2 (as amended). A Create is pending for a path and a Delete for the same path is
  added and accepted (fewer than \<open>max_size\<close> events pending, the path not in the
  processing set): \<open>Add\<close> returns nil, the Delete takes the Create's place, and
  exactly one event, the Delete, is pending for the path afterwards. Nothing else
  changes; the pair is not removed.
\<close>

theorem create_then_delete_leaves_delete:
  assumes "items q (q_Path new) = Some old"
      and "q_Type old = ChangeTypeCreate"
      and "q_Type new = ChangeTypeDelete"
      and "len_items q < maxSize q"
      and "\<not> is_processing q (q_Path new)"
  shows "Add q new = (None, q\<lparr>items := (items q)(q_Path new \<mapsto> new)\<rparr>) \<and>
         items (snd (Add q new)) (q_Path new) = Some new"
  using assms by (simp add: Add_def pulsePointShouldReplace_def)

text \<open>
  The theorem at a queue of capacity 10 that holds \<open>Create a.txt\<close>, when
  \<open>Delete a.txt\<close> arrives.
\<close>

theorem create_then_delete_leaves_delete_witness:
  "items (queue_with create_a 10) (q_Path delete_a) = Some create_a \<and>
   q_Type create_a = ChangeTypeCreate \<and>
   q_Type delete_a = ChangeTypeDelete \<and>
   len_items (queue_with create_a 10) < maxSize (queue_with create_a 10) \<and>
   \<not> is_processing (queue_with create_a 10) (q_Path delete_a) \<and>
   Add (queue_with create_a 10) delete_a = (None, queue_with delete_a 10) \<and>
   items (snd (Add (queue_with create_a 10) delete_a)) (q_Path delete_a) = Some delete_a"
proof -
  have a: "items (queue_with create_a 10) (q_Path delete_a) = Some create_a"
    by (simp add: fixture_defs)
  have b: "q_Type create_a = ChangeTypeCreate" by (simp add: fixture_defs)
  have c: "q_Type delete_a = ChangeTypeDelete" by (simp add: fixture_defs)
  have d: "len_items (queue_with create_a 10) < maxSize (queue_with create_a 10)"
    by (simp add: len_items_def queue_with_def)
  have e: "\<not> is_processing (queue_with create_a 10) (q_Path delete_a)"
    by (simp add: is_processing_def queue_with_def)
  have f: "(queue_with create_a 10)
             \<lparr>items := (items (queue_with create_a 10))(q_Path delete_a \<mapsto> delete_a)\<rparr>
           = queue_with delete_a 10"
    by (simp add: fixture_defs)
  have g: "items (queue_with delete_a 10) (q_Path delete_a) = Some delete_a"
    by (simp add: fixture_defs)
  from create_then_delete_leaves_delete [OF a b c d e] a b c d e f g show ?thesis by simp
qed

text \<open>
  C2 as stated fails: \<open>Create a.txt\<close> is pending, \<open>Delete a.txt\<close> is added, and an
  event for \<open>a.txt\<close> remains in the queue, the Delete.
\<close>

theorem create_then_delete_counterexample:
  "items (queue_with create_a 10) ''a.txt'' = Some create_a \<and>
   q_Type create_a = ChangeTypeCreate \<and>
   q_Type delete_a = ChangeTypeDelete \<and>
   q_Path delete_a = ''a.txt'' \<and>
   fst (Add (queue_with create_a 10) delete_a) = None \<and>
   items (snd (Add (queue_with create_a 10) delete_a)) ''a.txt'' = Some delete_a \<and>
   items (snd (Add (queue_with create_a 10) delete_a)) ''a.txt'' \<noteq> None"
  by (simp add: Add_def len_items_def is_processing_def fixture_defs
      pulsePointShouldReplace_def ChangeTypeDelete_def)

subsubsection \<open>A failed flush\<close>

lemma select_batch_lookup:
  "(path, event) \<in> set (select_batch q order) \<Longrightarrow> items q path = Some event"
  by (auto simp: select_batch_def List.map_filter_def)

lemma mark_processing_in:
  "path \<in> set ps \<Longrightarrow>
     processingItems (mark_processing q ps) path = Some True \<and>
     items (mark_processing q ps) path = None"
  unfolding mark_processing_def
proof (induction ps arbitrary: q rule: rev_induct)
  case Nil
  then show ?case by simp
next
  case (snoc p ps)
  then show ?case by (cases "path = p") auto
qed

lemma Add_processingItems: "processingItems (snd (Add q e)) = processingItems q"
  by (simp add: Add_def split: option.splits)

lemma Add_skips_processing:
  "is_processing q path \<Longrightarrow> items (snd (Add q e)) path = items q path"
  by (auto simp: Add_def split: option.splits)

lemma add_all_processing:
  "is_processing q path \<Longrightarrow>
     is_processing (add_all q es) path \<and> items (add_all q es) path = items q path"
  unfolding add_all_def
proof (induction es arbitrary: q)
  case Nil
  then show ?case by simp
next
  case (Cons e es)
  have "is_processing (snd (Add q e)) path"
    using Cons.prems by (simp add: is_processing_def Add_processingItems)
  from Cons.IH [OF this] show ?case
    using Add_skips_processing [OF Cons.prems] by simp
qed

lemma reinsert_batch_processingItems:
  "processingItems (reinsert_batch q batch) = processingItems q"
  unfolding reinsert_batch_def by (induction batch arbitrary: q) auto

lemma reinsert_batch_in:
  assumes "(path, event) \<in> set batch"
      and "\<forall>e. (path, e) \<in> set batch \<longrightarrow> e = event"
  shows "items (reinsert_batch q batch) path = Some event"
  using assms unfolding reinsert_batch_def
proof (induction batch arbitrary: q rule: rev_induct)
  case Nil
  then show ?case by simp
next
  case (snoc x xs)
  obtain p e where x: "x = (p, e)" by (cases x)
  show ?case
  proof (cases "p = path")
    case True
    have "e = event" using snoc.prems(2) x True by simp
    then show ?thesis using x True by simp
  next
    case False
    have m: "(path, event) \<in> set xs" using snoc.prems(1) x False by simp
    have u: "\<forall>e. (path, e) \<in> set xs \<longrightarrow> e = event" using snoc.prems(2) by simp
    show ?thesis using snoc.IH [OF m u] x False by simp
  qed
qed

lemma unmark_processing_items: "items (unmark_processing q ps) = items q"
  unfolding unmark_processing_def by (induction ps arbitrary: q) auto

lemma unmark_processing_in:
  "path \<in> set ps \<Longrightarrow> processingItems (unmark_processing q ps) path = None"
  unfolding unmark_processing_def
proof (induction ps arbitrary: q rule: rev_induct)
  case Nil
  then show ?case by simp
next
  case (snoc p ps)
  then show ?case by (cases "path = p") auto
qed

lemma Add_in_processing:
  "is_processing q (q_Path e) \<Longrightarrow> Add q e = not_queued q"
  by (simp add: Add_def not_queued_def)

lemma processing_in_first_window:
  assumes "(path, event) \<in> set (select_batch q order)"
  shows "is_processing (queue_while_processing q order offered) path"
proof -
  have "path \<in> set (map fst (select_batch q order))" using assms by force
  from mark_processing_in [OF this]
  have "is_processing (mark_processing q (map fst (select_batch q order))) path"
    by (simp add: is_processing_def)
  from add_all_processing [OF this] show ?thesis by (simp add: queue_while_processing_def)
qed

lemma restored_in_second_window:
  assumes "(path, event) \<in> set (select_batch q order)"
  shows "is_processing (queue_after_reinsert q order during offered) path \<and>
         items (queue_after_reinsert q order during offered) path = Some event"
proof -
  let ?q2 = "queue_while_processing q order during"
  let ?q3 = "reinsert_batch ?q2 (select_batch q order)"
  have uniq: "\<forall>e. (path, e) \<in> set (select_batch q order) \<longrightarrow> e = event"
    using select_batch_lookup [OF assms] by (auto dest: select_batch_lookup)
  have p3: "is_processing ?q3 path"
    using processing_in_first_window [OF assms, of during]
    by (simp add: is_processing_def reinsert_batch_processingItems)
  have i3: "items ?q3 path = Some event" by (rule reinsert_batch_in [OF assms uniq])
  from add_all_processing [OF p3, of offered] i3 show ?thesis
    by (simp add: queue_after_reinsert_def)
qed

lemma pulsePointProcessBatch_failed:
  assumes "len_items q \<noteq> 0"
      and "select_batch q order \<noteq> []"
      and "f (map snd (select_batch q order)) = Some err"
  shows "pulsePointProcessBatch q order (Some f) during later =
           unmark_processing (queue_after_reinsert q order during later)
             (map fst (select_batch q order))"
  using assms
  by (simp add: pulsePointProcessBatch_def Let_def queue_after_reinsert_def
      queue_while_processing_def)

text \<open>
  C7 (as amended). A flush, \<open>pulsePointProcessBatch\<close>, whose callback fails on the
  batch: whatever events other goroutines offer to \<open>Add\<close> while the callback runs
  (\<open>during\<close>) and between the reinsertion and the clearing of the processing set
  (\<open>later\<close>), every event of the batch is pending again under its path when the flush
  returns. An event offered for a path of the batch in either place is not queued
  and not weighed against the batch's event by the deduplication table: \<open>Add\<close> leaves
  the queue as it is and returns the over-capacity error when the pending map is
  full, nil otherwise.
\<close>

theorem failed_batch_restored:
  assumes "(path, event) \<in> set (select_batch q order)"
      and "finite (dom (items q))"
      and "f (map snd (select_batch q order)) = Some err"
  shows "items (pulsePointProcessBatch q order (Some f) during later) path = Some event
    \<and> (q_Path e = path \<longrightarrow>
         Add (queue_while_processing q order offered) e
           = not_queued (queue_while_processing q order offered))
    \<and> (q_Path e = path \<longrightarrow>
         Add (queue_after_reinsert q order during offered) e
           = not_queued (queue_after_reinsert q order during offered))"
proof (intro conjI impI)
  have "path \<in> dom (items q)" using select_batch_lookup [OF assms(1)] by auto
  then have "card (dom (items q)) \<noteq> 0" using assms(2) by auto
  then have n: "len_items q \<noteq> 0" by (simp add: len_items_def)
  have b: "select_batch q order \<noteq> []" using assms(1) by auto
  show "items (pulsePointProcessBatch q order (Some f) during later) path = Some event"
    using restored_in_second_window [OF assms(1), of during later]
    by (simp add: pulsePointProcessBatch_failed [where f = f, OF n b assms(3)]
        unmark_processing_items)
next
  assume "q_Path e = path"
  then show "Add (queue_while_processing q order offered) e
               = not_queued (queue_while_processing q order offered)"
    using processing_in_first_window [OF assms(1), of offered] by (simp add: Add_in_processing)
next
  assume "q_Path e = path"
  then show "Add (queue_after_reinsert q order during offered) e
               = not_queued (queue_after_reinsert q order during offered)"
    using restored_in_second_window [OF assms(1), of during offered]
    by (simp add: Add_in_processing)
qed

lemma batch_of_create_a:
  "select_batch (queue_with create_a cap) [''a.txt''] = [(''a.txt'', create_a)]"
  by (simp add: select_batch_def List.map_filter_def fixture_defs)

lemma marked_create_a:
  "mark_processing (queue_with create_a cap) [''a.txt''] =
     \<lparr> items = Map.empty, processingItems = [''a.txt'' \<mapsto> True], maxSize = cap,
       batchSize = 100 \<rparr>"
  by (simp add: mark_processing_def fixture_defs)

text \<open>
  The theorem at the queue that holds \<open>Create a.txt\<close>: the flush takes it, the
  callback fails, \<open>Delete a.txt\<close> is offered while the callback runs and
  \<open>Modify a.txt\<close> after the reinsertion. Both are answered with nil and not queued,
  and the Create is pending when the flush returns.
\<close>

theorem failed_batch_restored_witness:
  "(''a.txt'', create_a) \<in> set (select_batch (queue_with create_a 10) [''a.txt'']) \<and>
   finite (dom (items (queue_with create_a 10))) \<and>
   failing_callback (map snd (select_batch (queue_with create_a 10) [''a.txt'']))
     = Some (PlainError ''remote unreachable'') \<and>
   q_Path delete_a = ''a.txt'' \<and>
   items (pulsePointProcessBatch (queue_with create_a 10) [''a.txt''] (Some failing_callback)
            [delete_a] [modify_a]) ''a.txt'' = Some create_a \<and>
   Add (queue_while_processing (queue_with create_a 10) [''a.txt''] []) delete_a
     = (None, queue_while_processing (queue_with create_a 10) [''a.txt''] []) \<and>
   Add (queue_after_reinsert (queue_with create_a 10) [''a.txt''] [delete_a] []) delete_a
     = not_queued (queue_after_reinsert (queue_with create_a 10) [''a.txt''] [delete_a] [])"
proof -
  have m: "(''a.txt'', create_a) \<in> set (select_batch (queue_with create_a 10) [''a.txt''])"
    by (simp add: batch_of_create_a)
  have fin: "finite (dom (items (queue_with create_a 10)))" by (simp add: queue_with_def)
  have cb: "failing_callback (map snd (select_batch (queue_with create_a 10) [''a.txt'']))
              = Some (PlainError ''remote unreachable'')"
    by (simp add: failing_callback_def)
  have p: "q_Path delete_a = ''a.txt''" by (simp add: fixture_defs)
  have nq: "not_queued (queue_while_processing (queue_with create_a 10) [''a.txt''] [])
              = (None, queue_while_processing (queue_with create_a 10) [''a.txt''] [])"
    by (simp add: not_queued_def queue_while_processing_def add_all_def batch_of_create_a
        marked_create_a len_items_def)
  from failed_batch_restored [where f = failing_callback and e = delete_a
      and during = "[delete_a]" and later = "[modify_a]" and offered = "[]", OF m fin cb]
    m fin cb p nq
  show ?thesis by simp
qed

text \<open>
  At a full pending map the event offered for a path of the batch is answered with
  the over-capacity error, not with nil: the capacity test comes first.
\<close>

lemma offered_at_capacity:
  "Add (queue_while_processing (queue_with create_a 0) [''a.txt''] []) delete_a =
     (Some (PlainError ''queue is at maximum capacity (0 items)''),
      queue_while_processing (queue_with create_a 0) [''a.txt''] [])"
  by (simp add: Add_def queue_while_processing_def add_all_def batch_of_create_a
      marked_create_a len_items_def fmt_d_def)

text \<open>
  C7 as stated fails: \<open>Delete a.txt\<close> offered while the batch \<open>Create a.txt\<close> is
  processing is taken by \<open>Add\<close> without an error, the table lets a Delete replace the
  Create, and after the failed flush the pending event is the Create.
\<close>

theorem reinsert_ignores_table_counterexample:
  "Add (queue_while_processing (queue_with create_a 10) [''a.txt''] []) delete_a
     = (None, queue_while_processing (queue_with create_a 10) [''a.txt''] []) \<and>
   pulsePointShouldReplace create_a delete_a \<and>
   spec_dedup_outcome create_a delete_a = delete_a \<and>
   items (pulsePointProcessBatch (queue_with create_a 10) [''a.txt''] (Some failing_callback)
            [delete_a] []) ''a.txt'' = Some create_a \<and>
   create_a \<noteq> delete_a"
proof -
  have p: "q_Path delete_a = ''a.txt''" by (simp add: fixture_defs)
  have a: "Add (queue_while_processing (queue_with create_a 10) [''a.txt''] []) delete_a
             = (None, queue_while_processing (queue_with create_a 10) [''a.txt''] [])"
    by (simp add: Add_def queue_while_processing_def add_all_def batch_of_create_a
        marked_create_a len_items_def is_processing_def p)
  have t: "pulsePointShouldReplace create_a delete_a"
          "spec_dedup_outcome create_a delete_a = delete_a" "create_a \<noteq> delete_a"
    by (simp_all add: pulsePointShouldReplace_def spec_dedup_outcome_def fixture_defs)
  have l: "len_items (queue_with create_a 10) = 1"
    by (simp add: len_items_def queue_with_def)
  have d: "Add (mark_processing (queue_with create_a 10) [''a.txt'']) delete_a
             = (None, mark_processing (queue_with create_a 10) [''a.txt''])"
    using a by (simp add: queue_while_processing_def add_all_def batch_of_create_a)
  have r: "items (pulsePointProcessBatch (queue_with create_a 10) [''a.txt'']
             (Some failing_callback) [delete_a] []) ''a.txt'' = Some create_a"
    by (simp add: pulsePointProcessBatch_def Let_def l batch_of_create_a failing_callback_def
        add_all_def d marked_create_a reinsert_batch_def unmark_processing_def)
  from a t r show ?thesis by simp
qed

subsection \<open>File watcher\<close>

text \<open>
  C3. A debounced Modify event (the Write bit without the Create bit) for a path
  that \<open>os.Stat\<close> finds and that is not a directory, whose recomputed hash equals
  the hash cached for the path: the handler returns before the send, so nothing is
  offered on the events channel, and the watcher's state is what it was.
\<close>

theorem unchanged_modify_suppressed:
  assumes "pulsePointMapEventType (ev_Op event) = ChangeTypeModify"
      and "env_Stat env (ev_Name event) = Inr info"
      and "\<not> fi_IsDir info"
      and "pulsePointCalculateHash w env (ev_Name event) = Inr hash"
      and "fileHashes w (ev_Name event) = Some hash"
  shows "pulsePointProcessEvent w env event = (w, None)"
  using assms
  by (simp add: pulsePointProcessEvent_def Let_def ChangeType_defs ChangeTypeUnknown_def)

lemma write_a_is_modify: "pulsePointMapEventType (ev_Op write_a) = ChangeTypeModify"
  by (simp add: pulsePointMapEventType_def write_a_def fsnotify_Create_def fsnotify_Write_def
      ChangeType_defs)

text \<open>
  The theorem at a write to \<open>/w/a.txt\<close> whose content \<open>v1\<close> hashes to the cached
  \<open>sha:v1\<close>.
\<close>

theorem unchanged_modify_suppressed_witness:
  "pulsePointMapEventType (ev_Op write_a) = ChangeTypeModify \<and>
   env_Stat (test_fs ''v1'') (ev_Name write_a) = Inr \<lparr> fi_Size = 2, fi_IsDir = False \<rparr> \<and>
   pulsePointCalculateHash test_watcher (test_fs ''v1'') (ev_Name write_a) = Inr ''sha:v1'' \<and>
   fileHashes test_watcher (ev_Name write_a) = Some ''sha:v1'' \<and>
   pulsePointProcessEvent test_watcher (test_fs ''v1'') write_a = (test_watcher, None)"
proof -
  have s: "env_Stat (test_fs ''v1'') (ev_Name write_a) = Inr \<lparr> fi_Size = 2, fi_IsDir = False \<rparr>"
    by (simp add: test_fs_def write_a_def)
  have d: "\<not> fi_IsDir \<lparr> fi_Size = 2, fi_IsDir = False \<rparr>" by simp
  have h: "pulsePointCalculateHash test_watcher (test_fs ''v1'') (ev_Name write_a) = Inr ''sha:v1''"
    by (simp add: pulsePointCalculateHash_def test_fs_def write_a_def test_watcher_def)
  have c: "fileHashes test_watcher (ev_Name write_a) = Some ''sha:v1''"
    by (simp add: test_watcher_def write_a_def)
  from unchanged_modify_suppressed [OF write_a_is_modify s d h c] s h c write_a_is_modify
  show ?thesis by simp
qed

text \<open>For contrast: the same write with new content is sent, and the cache follows.\<close>

lemma changed_modify_sent:
  "pulsePointProcessEvent test_watcher (test_fs ''v2'') write_a =
     (test_watcher\<lparr>fileHashes := [''/w/a.txt'' \<mapsto> ''sha:v2'']\<rparr>,
      Some \<lparr> ce_Type = ChangeTypeModify, ce_Path = ''/w/a.txt'', ce_OldPath = [],
             ce_Timestamp = 1700000000, ce_Size = 2, ce_Hash = ''sha:v2'', ce_IsDir = False \<rparr>)"
proof -
  have h: "pulsePointCalculateHash test_watcher (test_fs ''v2'') ''/w/a.txt'' = Inr ''sha:v2''"
    by (simp add: pulsePointCalculateHash_def test_fs_def test_watcher_def)
  have s: "env_Stat (test_fs ''v2'') ''/w/a.txt'' = Inr \<lparr> fi_Size = 2, fi_IsDir = False \<rparr>"
    by (simp add: test_fs_def)
  have n: "ev_Name write_a = ''/w/a.txt''" by (simp add: write_a_def)
  show ?thesis
    by (simp add: pulsePointProcessEvent_def Let_def write_a_is_modify n h s send_event_def
        ChangeType_defs ChangeTypeUnknown_def)
      (simp add: test_fs_def test_watcher_def)
qed


subsection \<open>Strategy layer\<close>

subsubsection \<open>The calls a backup makes\<close>

lemma time_Now_calls: "calls (snd (time_Now env w)) = calls w \<and> remote (snd (time_Now env w)) = remote w"
  by (simp add: time_Now_def)

lemma time_Now_fst: "fst (time_Now env w) = clock env (ticks w)"
  by (simp add: time_Now_def)

lemma do_Upload_calls: "calls (snd (do_Upload env file w)) = calls w @ [CallUpload file]"
  by (simp add: do_Upload_def split: prod.splits)

lemma do_Upload_callsD:
  "do_Upload env f w = (e, w2) \<Longrightarrow> calls w2 = calls w @ [CallUpload f]"
  using do_Upload_calls [of env f w] by simp

lemma do_GetMetadata_calls:
  "calls (snd (do_GetMetadata env path w)) = calls w @ [CallGetMetadata path]"
  by (simp add: do_GetMetadata_def split: prod.splits)

lemma do_List_calls: "calls (snd (do_List env folder w)) = calls w @ [CallList folder]"
  by (simp add: do_List_def split: prod.splits)

lemma backup_remotePath_calls:
  "calls (snd (backup_remotePath env cfg change ts w)) =
     calls w @ (if VersionControl cfg then [CallGetMetadata (ce_Path change)] else [])"
  using do_GetMetadata_calls [of env "ce_Path change" w]
  by (auto simp: backup_remotePath_def split: prod.splits)

lemma backup_remotePath_cases:
  "fst (backup_remotePath env cfg change ts w) = ce_Path change \<or>
   fst (backup_remotePath env cfg change ts w) = generateVersionedPath env (ce_Path change) ts"
  by (auto simp: backup_remotePath_def split: prod.splits)

lemma backup_remotePath_fst:
  "fst (backup_remotePath env cfg change ts w) =
     (if VersionControl cfg \<and> remote_has env (ce_Path change) (remote w)
        then generateVersionedPath env (ce_Path change) ts
        else ce_Path change)"
  by (auto simp: backup_remotePath_def do_GetMetadata_def remote_has_def split: prod.splits)

lemma backupFile_calls:
  "calls (snd (snd (backupFile env cfg change ts result w))) =
     calls w @
       (if MaxFileSize cfg > 0 \<and> ce_Size change > MaxFileSize cfg then []
        else (if VersionControl cfg then [CallGetMetadata (ce_Path change)] else []) @
             [CallUpload (file_of_change (fst (backup_remotePath env cfg change ts w)) change)])"
proof (cases "MaxFileSize cfg > 0 \<and> ce_Size change > MaxFileSize cfg")
  case True
  then show ?thesis by (simp add: backupFile_def)
next
  case False
  obtain rp w1 where rp: "backup_remotePath env cfg change ts w = (rp, w1)"
    by (cases "backup_remotePath env cfg change ts w")
  obtain err w2 where up: "do_Upload env (file_of_change rp change) w1 = (err, w2)"
    by (cases "do_Upload env (file_of_change rp change) w1")
  have c1: "calls w1 = calls w @ (if VersionControl cfg then [CallGetMetadata (ce_Path change)] else [])"
    using backup_remotePath_calls [of env cfg change ts w] rp by simp
  have c2: "calls w2 = calls w1 @ [CallUpload (file_of_change rp change)]"
    using do_Upload_calls [of env "file_of_change rp change" w1] up by simp
  show ?thesis using False rp up c1 c2
    by (cases err) (simp_all add: backupFile_def)
qed

lemma markDeleted_calls:
  "calls (snd (snd (markDeleted env change ts result w))) =
     calls w @ [CallUpload (marker_file (ce_Path change @ ''.deleted_'' @ ts) (clock env (ticks w)))]"
proof -
  obtain e w2 where up: "do_Upload env (marker_file (ce_Path change @ ''.deleted_'' @ ts) (clock env (ticks w)))
      (w\<lparr>ticks := Suc (ticks w)\<rparr>) = (e, w2)"
    by (cases "do_Upload env (marker_file (ce_Path change @ ''.deleted_'' @ ts) (clock env (ticks w)))
      (w\<lparr>ticks := Suc (ticks w)\<rparr>)")
  have "calls w2 = calls w @ [CallUpload (marker_file (ce_Path change @ ''.deleted_'' @ ts) (clock env (ticks w)))]"
    using do_Upload_callsD [OF up] by simp
  then show ?thesis using up by (simp add: markDeleted_def time_Now_def)
qed

lemma do_Upload_remoteD:
  "do_Upload env f w = (e, w2) \<Longrightarrow> remote w2 = snd (prov_Upload (provider env) f (remote w))"
  by (auto simp: do_Upload_def split: prod.splits)

lemma markMoved_result:
  "\<exists>w2. markMoved env oldPath newPath ts result w = (None, result, w2) \<and>
     calls w2 = calls w @ [CallUpload (marker_file (oldPath @ ''.moved_'' @ ts) (clock env (ticks w)))] \<and>
     remote w2 = snd (prov_Upload (provider env)
                        (marker_file (oldPath @ ''.moved_'' @ ts) (clock env (ticks w))) (remote w))"
proof -
  obtain e w2 where up: "do_Upload env (marker_file (oldPath @ ''.moved_'' @ ts) (clock env (ticks w)))
      (w\<lparr>ticks := Suc (ticks w)\<rparr>) = (e, w2)"
    by (cases "do_Upload env (marker_file (oldPath @ ''.moved_'' @ ts) (clock env (ticks w)))
      (w\<lparr>ticks := Suc (ticks w)\<rparr>)")
  have "calls w2 = calls w @ [CallUpload (marker_file (oldPath @ ''.moved_'' @ ts) (clock env (ticks w)))]"
    using do_Upload_callsD [OF up] by simp
  moreover have "remote w2 = snd (prov_Upload (provider env)
                        (marker_file (oldPath @ ''.moved_'' @ ts) (clock env (ticks w))) (remote w))"
    using do_Upload_remoteD [OF up] by simp
  ultimately show ?thesis using up by (simp add: markMoved_def time_Now_def)
qed

lemma backup_processChange_no_delete:
  "filter is_delete_call (calls (snd (snd (backup_processChange env cfg change ts result w)))) =
   filter is_delete_call (calls w)"
proof -
  let ?r = "result\<lparr>FilesProcessed := FilesProcessed result + 1\<rparr>"
  obtain w2 where mv: "markMoved env (ce_OldPath change) (ce_Path change) ts ?r w = (None, ?r, w2)"
    and c2: "calls w2 = calls w @ [CallUpload (marker_file (ce_OldPath change @ ''.moved_'' @ ts) (clock env (ticks w)))]"
    using markMoved_result by blast
  show ?thesis
    using backupFile_calls [of env cfg change ts ?r w] backupFile_calls [of env cfg change ts ?r w2]
      markDeleted_calls [of env change ts ?r w] mv c2
    by (simp add: backup_processChange_def Let_def)
qed

lemma backup_changes_no_delete:
  "filter is_delete_call (calls (snd (backup_changes env cfg changes ts result w))) =
   filter is_delete_call (calls w)"
proof (induction changes arbitrary: result w)
  case Nil
  then show ?case by simp
next
  case (Cons change rest)
  obtain err r1 w1 where pc: "backup_processChange env cfg change ts result w = (err, r1, w1)"
    by (cases "backup_processChange env cfg change ts result w") auto
  have k: "filter is_delete_call (calls w1) = filter is_delete_call (calls w)"
    using backup_processChange_no_delete [of env cfg change ts result w] pc by simp
  show ?case
  proof (cases err)
    case None
    then show ?thesis using pc k Cons.IH by simp
  next
    case (Some e)
    have "calls (w1\<lparr>ticks := Suc (ticks w1)\<rparr>) = calls w1" by simp
    then show ?thesis using pc k Some Cons.IH [of _ "w1\<lparr>ticks := Suc (ticks w1)\<rparr>"]
      by (simp add: time_Now_def)
  qed
qed

lemma backup_changes_no_deleteD:
  "backup_changes env cfg changes ts result w = (r, w3) \<Longrightarrow>
     filter is_delete_call (calls w3) = filter is_delete_call (calls w)"
  using backup_changes_no_delete [of env cfg changes ts result w] by simp

lemma backup_Sync_no_delete:
  "filter is_delete_call (calls (snd (backup_Sync env cfg source destination changes w))) =
   filter is_delete_call (calls w)"
proof -
  let ?w2 = "w\<lparr>ticks := Suc (Suc (ticks w))\<rparr>"
  obtain r w3 where bc: "backup_changes env cfg changes (format_time env (clock env (Suc (ticks w))))
      (new_result (clock env (ticks w))) ?w2 = (r, w3)"
    by (cases "backup_changes env cfg changes (format_time env (clock env (Suc (ticks w))))
      (new_result (clock env (ticks w))) ?w2")
  have "filter is_delete_call (calls w3) = filter is_delete_call (calls ?w2)"
    by (rule backup_changes_no_deleteD [OF bc])
  then show ?thesis using bc by (simp add: backup_Sync_def time_Now_def)
qed

text \<open>
  C5 (as amended). For a backup strategy as its constructor builds it, on any
  provider and any batch: \<open>Sync\<close> makes no \<open>Delete\<close> call on the provider. A Delete
  event makes exactly one call, the upload of a zero-byte marker at
  \<open><path>.deleted_<ts>\<close>. A Rename event uploads a zero-byte marker at
  \<open><old path>.moved_<ts>\<close> and then backs the new path up as a Create would: nothing
  more when the size exceeds a positive \<open>max_file_size\<close> (the file is skipped),
  otherwise a metadata lookup of the new path and one upload, to its versioned path
  when the lookup (made after the marker's upload) returns metadata and no error, and
  to the new path itself when it does not.
\<close>

theorem backup_never_deletes:
  assumes "cfg = NewPulsePointBackupStrategy config"
  shows "filter is_delete_call (calls (snd (backup_Sync env cfg source destination changes w)))
           = filter is_delete_call (calls w)
    \<and> (ce_Type change = ChangeTypeDelete \<longrightarrow>
         calls (snd (snd (backup_processChange env cfg change ts result w))) =
           calls w @ [CallUpload (marker_file (ce_Path change @ ''.deleted_'' @ ts)
                                    (clock env (ticks w)))])
    \<and> (ce_Type change = ChangeTypeRename \<longrightarrow>
         calls (snd (snd (backup_processChange env cfg change ts result w))) =
           calls w @
             CallUpload (marker_file (ce_OldPath change @ ''.moved_'' @ ts)
                           (clock env (ticks w))) #
             (if MaxFileSize cfg > 0 \<and> ce_Size change > MaxFileSize cfg then []
              else [CallGetMetadata (ce_Path change),
                    CallUpload (file_of_change
                      (if remote_has env (ce_Path change)
                            (snd (prov_Upload (provider env)
                                    (marker_file (ce_OldPath change @ ''.moved_'' @ ts)
                                       (clock env (ticks w)))
                                    (remote w)))
                         then generateVersionedPath env (ce_Path change) ts
                         else ce_Path change)
                      change)]))"
proof (intro conjI impI)
  show "filter is_delete_call (calls (snd (backup_Sync env cfg source destination changes w)))
          = filter is_delete_call (calls w)"
    by (rule backup_Sync_no_delete)
next
  assume d: "ce_Type change = ChangeTypeDelete"
  let ?r = "result\<lparr>FilesProcessed := FilesProcessed result + 1\<rparr>"
  have "backup_processChange env cfg change ts result w = markDeleted env change ts ?r w"
    using d by (simp add: backup_processChange_def Let_def ChangeType_defs)
  then show "calls (snd (snd (backup_processChange env cfg change ts result w))) =
           calls w @ [CallUpload (marker_file (ce_Path change @ ''.deleted_'' @ ts)
                                    (clock env (ticks w)))]"
    using markDeleted_calls [of env change ts ?r w] by simp
next
  assume r: "ce_Type change = ChangeTypeRename"
  let ?r = "result\<lparr>FilesProcessed := FilesProcessed result + 1\<rparr>"
  let ?m = "marker_file (ce_OldPath change @ ''.moved_'' @ ts) (clock env (ticks w))"
  have vc: "VersionControl cfg"
    using assms by (simp add: NewPulsePointBackupStrategy_def split: option.splits)
  obtain w2 where mv: "markMoved env (ce_OldPath change) (ce_Path change) ts ?r w = (None, ?r, w2)"
    and c2: "calls w2 = calls w @ [CallUpload ?m]"
    and r2: "remote w2 = snd (prov_Upload (provider env) ?m (remote w))"
    using markMoved_result by blast
  have pc: "backup_processChange env cfg change ts result w = backupFile env cfg change ts ?r w2"
    using r mv by (simp add: backup_processChange_def Let_def ChangeType_defs)
  have rp: "fst (backup_remotePath env cfg change ts w2) =
              (if remote_has env (ce_Path change) (snd (prov_Upload (provider env) ?m (remote w)))
                 then generateVersionedPath env (ce_Path change) ts
                 else ce_Path change)"
    using vc r2 by (simp add: backup_remotePath_fst)
  show "calls (snd (snd (backup_processChange env cfg change ts result w))) =
          calls w @
            CallUpload ?m #
            (if MaxFileSize cfg > 0 \<and> ce_Size change > MaxFileSize cfg then []
             else [CallGetMetadata (ce_Path change),
                   CallUpload (file_of_change
                     (if remote_has env (ce_Path change)
                           (snd (prov_Upload (provider env) ?m (remote w)))
                        then generateVersionedPath env (ce_Path change) ts
                        else ce_Path change)
                     change)])"
    using backupFile_calls [of env cfg change ts ?r w2] pc c2 vc rp by simp
qed

lemmas strategy_fixture_defs =
  test_env_def memory_provider_def remote_with_def stored_def change_of_def limit_5_def
  NewPulsePointBackupStrategy_def NewPulsePointMirrorStrategy_def new_result_def
  marker_file_def file_of_change_def error_entry_def

lemmas strategy_run_defs =
  time_Now_def do_Upload_def do_Delete_def do_List_def do_GetMetadata_def

lemma versioned_example:
  "generateVersionedPath (test_env False) ''r.txt'' ''T'' = ''r_vT.txt''"
  by (simp add: generateVersionedPath_def test_env_def Let_def)

lemma rename_over_limit_run:
  "backup_Sync (test_env False) limit_5 ''src'' ''dst''
      [change_of ChangeTypeRename ''new.txt'' ''old.txt'' 10] (remote_with []) =
   ((new_result 0)\<lparr>FilesProcessed := 1, FilesSkipped := 1, EndTime := 3000\<rparr>,
    \<lparr> remote = [marker_file ''old.txt.moved_20240101_000000'' 2000],
      calls = [CallUpload (marker_file ''old.txt.moved_20240101_000000'' 2000)],
      ticks = 4 \<rparr>)"
  by (simp add: backup_Sync_def backup_processChange_def markMoved_def backupFile_def Let_def
      strategy_run_defs strategy_fixture_defs ChangeType_defs)

lemma failed_backup_run:
  "backup_Sync (test_env True) (NewPulsePointBackupStrategy None) ''src'' ''dst''
      [change_of ChangeTypeCreate ''a.txt'' [] 3] (remote_with []) =
   ((new_result 0)\<lparr>FilesProcessed := 1,
       Errors := [\<lparr> se_Path = ''a.txt'', se_Operation = ''create'',
                    se_Message = ''[sync] failed to backup a.txt: connection refused'',
                    se_Timestamp = 2000 \<rparr>],
       EndTime := 3000\<rparr>,
    \<lparr> remote = [],
      calls = [CallGetMetadata ''a.txt'', CallUpload (file_of_change ''a.txt'' (change_of ChangeTypeCreate ''a.txt'' [] 3))],
      ticks = 4 \<rparr>)"
  by (simp add: backup_Sync_def backup_processChange_def backupFile_def backup_remotePath_def Let_def
      strategy_run_defs strategy_fixture_defs ChangeType_defs NewSyncError_def New_def SyncError_def)

lemma mirror_no_events_run:
  "mirror_Sync (test_env False) (NewPulsePointMirrorStrategy None) ''src'' ''dst'' []
      (remote_with [stored ''p.txt'', stored ''q.txt'']) =
   ((new_result 0)\<lparr>EndTime := 1000\<rparr>,
    \<lparr> remote = [stored ''p.txt'', stored ''q.txt''], calls = [CallList ''/''], ticks = 2 \<rparr>)"
  by (simp add: mirror_Sync_def cleanupRemote_def strategy_run_defs test_env_def
      memory_provider_def remote_with_def new_result_def)

text \<open>
  The theorem at a Delete of \<open>r.txt\<close> and at a Rename of \<open>old.txt\<close> to \<open>new.txt\<close>
  (3 bytes, no size limit), once when the remote already holds \<open>new.txt\<close> and once
  when it holds nothing.
\<close>

theorem backup_never_deletes_witness:
  "ce_Type (change_of ChangeTypeDelete ''r.txt'' [] 0) = ChangeTypeDelete \<and>
   calls (snd (snd (backup_processChange (test_env False) (NewPulsePointBackupStrategy None)
      (change_of ChangeTypeDelete ''r.txt'' [] 0) ''T'' (new_result 0)
      (remote_with [stored ''r.txt''])))) =
     [CallUpload (marker_file ''r.txt.deleted_T'' 0)] \<and>
   filter is_delete_call (calls (snd (backup_Sync (test_env False)
      (NewPulsePointBackupStrategy None) ''src'' ''dst''
      [change_of ChangeTypeDelete ''r.txt'' [] 0] (remote_with [stored ''r.txt''])))) = [] \<and>
   ce_Type (change_of ChangeTypeRename ''new.txt'' ''old.txt'' 3) = ChangeTypeRename \<and>
   calls (snd (snd (backup_processChange (test_env False) (NewPulsePointBackupStrategy None)
      (change_of ChangeTypeRename ''new.txt'' ''old.txt'' 3) ''T'' (new_result 0)
      (remote_with [stored ''new.txt''])))) =
     [CallUpload (marker_file ''old.txt.moved_T'' 0), CallGetMetadata ''new.txt'',
      CallUpload (file_of_change ''new_vT.txt''
                    (change_of ChangeTypeRename ''new.txt'' ''old.txt'' 3))] \<and>
   calls (snd (snd (backup_processChange (test_env False) (NewPulsePointBackupStrategy None)
      (change_of ChangeTypeRename ''new.txt'' ''old.txt'' 3) ''T'' (new_result 0)
      (remote_with [])))) =
     [CallUpload (marker_file ''old.txt.moved_T'' 0), CallGetMetadata ''new.txt'',
      CallUpload (file_of_change ''new.txt''
                    (change_of ChangeTypeRename ''new.txt'' ''old.txt'' 3))]"
proof -
  have cfg: "NewPulsePointBackupStrategy None = NewPulsePointBackupStrategy None" by simp
  have d: "ce_Type (change_of ChangeTypeDelete ''r.txt'' [] 0) = ChangeTypeDelete"
    by (simp add: change_of_def)
  have r: "ce_Type (change_of ChangeTypeRename ''new.txt'' ''old.txt'' 3) = ChangeTypeRename"
    by (simp add: change_of_def)
  have w0: "calls (remote_with fs) = []" "ticks (remote_with fs) = 0" "remote (remote_with fs) = fs"
    for fs
    by (simp_all add: remote_with_def)
  have c0: "clock (test_env False) 0 = 0" by (simp add: test_env_def)
  have p: "ce_Path (change_of ChangeTypeDelete ''r.txt'' [] 0) = ''r.txt''"
    by (simp add: change_of_def)
  have q: "ce_Path (change_of ChangeTypeRename ''new.txt'' ''old.txt'' 3) = ''new.txt''"
          "ce_OldPath (change_of ChangeTypeRename ''new.txt'' ''old.txt'' 3) = ''old.txt''"
          "ce_Size (change_of ChangeTypeRename ''new.txt'' ''old.txt'' 3) = 3"
    by (simp_all add: change_of_def)
  have lim: "MaxFileSize (NewPulsePointBackupStrategy None) = 0"
    by (simp add: NewPulsePointBackupStrategy_def)
  have has: "remote_has (test_env False) ''new.txt''
               (snd (prov_Upload (provider (test_env False))
                       (marker_file ''old.txt.moved_T'' 0) [stored ''new.txt'']))"
    by (simp add: remote_has_def test_env_def memory_provider_def stored_def marker_file_def)
  have has_not: "\<not> remote_has (test_env False) ''new.txt''
               (snd (prov_Upload (provider (test_env False))
                       (marker_file ''old.txt.moved_T'' 0) []))"
    by (simp add: remote_has_def test_env_def memory_provider_def marker_file_def)
  have v: "generateVersionedPath (test_env False) ''new.txt'' ''T'' = ''new_vT.txt''"
    by (simp add: generateVersionedPath_def test_env_def Let_def)
  note t = backup_never_deletes [OF cfg, where env = "test_env False" and source = "''src''"
      and destination = "''dst''" and ts = "''T''" and result = "new_result 0"
      and changes = "[change_of ChangeTypeDelete ''r.txt'' [] 0]"
      and w = "remote_with [stored ''r.txt'']"
      and change = "change_of ChangeTypeDelete ''r.txt'' [] 0"]
  note t1 = backup_never_deletes [OF cfg, where env = "test_env False" and source = "''src''"
      and destination = "''dst''" and ts = "''T''" and result = "new_result 0"
      and changes = "[]" and w = "remote_with [stored ''new.txt'']"
      and change = "change_of ChangeTypeRename ''new.txt'' ''old.txt'' 3"]
  note t2 = backup_never_deletes [OF cfg, where env = "test_env False" and source = "''src''"
      and destination = "''dst''" and ts = "''T''" and result = "new_result 0"
      and changes = "[]" and w = "remote_with []"
      and change = "change_of ChangeTypeRename ''new.txt'' ''old.txt'' 3"]
  have a: "calls (snd (snd (backup_processChange (test_env False)
      (NewPulsePointBackupStrategy None)
      (change_of ChangeTypeDelete ''r.txt'' [] 0) ''T'' (new_result 0)
      (remote_with [stored ''r.txt''])))) =
     [CallUpload (marker_file ''r.txt.deleted_T'' 0)]"
    using t d by (simp add: w0 c0 p)
  have b: "filter is_delete_call (calls (snd (backup_Sync (test_env False)
      (NewPulsePointBackupStrategy None) ''src'' ''dst''
      [change_of ChangeTypeDelete ''r.txt'' [] 0] (remote_with [stored ''r.txt''])))) = []"
    using t by (simp add: w0)
  have c: "calls (snd (snd (backup_processChange (test_env False)
      (NewPulsePointBackupStrategy None)
      (change_of ChangeTypeRename ''new.txt'' ''old.txt'' 3) ''T'' (new_result 0)
      (remote_with [stored ''new.txt''])))) =
     [CallUpload (marker_file ''old.txt.moved_T'' 0), CallGetMetadata ''new.txt'',
      CallUpload (file_of_change ''new_vT.txt''
                    (change_of ChangeTypeRename ''new.txt'' ''old.txt'' 3))]"
    using t1 r has by (simp add: w0 c0 q lim v)
  have e: "calls (snd (snd (backup_processChange (test_env False)
      (NewPulsePointBackupStrategy None)
      (change_of ChangeTypeRename ''new.txt'' ''old.txt'' 3) ''T'' (new_result 0)
      (remote_with [])))) =
     [CallUpload (marker_file ''old.txt.moved_T'' 0), CallGetMetadata ''new.txt'',
      CallUpload (file_of_change ''new.txt''
                    (change_of ChangeTypeRename ''new.txt'' ''old.txt'' 3))]"
    using t2 r has_not by (simp add: w0 c0 q lim)
  from a b c d e r show ?thesis by simp
qed

text \<open>
  C5 as stated fails under a size limit: with \<open>max_file_size = 5\<close>, a Rename of
  \<open>old.txt\<close> to the 10-byte \<open>new.txt\<close> uploads the marker and nothing else; the new
  path is skipped, not uploaded.
\<close>

theorem rename_over_limit_counterexample:
  "ce_Type (change_of ChangeTypeRename ''new.txt'' ''old.txt'' 10) = ChangeTypeRename \<and>
   calls (snd (backup_Sync (test_env False) limit_5 ''src'' ''dst''
      [change_of ChangeTypeRename ''new.txt'' ''old.txt'' 10] (remote_with []))) =
     [CallUpload (marker_file ''old.txt.moved_20240101_000000'' 2000)] \<and>
   remote (snd (backup_Sync (test_env False) limit_5 ''src'' ''dst''
      [change_of ChangeTypeRename ''new.txt'' ''old.txt'' 10] (remote_with []))) =
     [marker_file ''old.txt.moved_20240101_000000'' 2000] \<and>
   FilesUploaded (fst (backup_Sync (test_env False) limit_5 ''src'' ''dst''
      [change_of ChangeTypeRename ''new.txt'' ''old.txt'' 10] (remote_with []))) = 0 \<and>
   FilesSkipped (fst (backup_Sync (test_env False) limit_5 ''src'' ''dst''
      [change_of ChangeTypeRename ''new.txt'' ''old.txt'' 10] (remote_with []))) = 1"
proof -
  have t: "ce_Type (change_of ChangeTypeRename ''new.txt'' ''old.txt'' 10) = ChangeTypeRename"
    by (simp add: change_of_def)
  show ?thesis using t by (simp add: rename_over_limit_run new_result_def)
qed

subsubsection \<open>The success flag\<close>

text \<open>
  The one-way strategy keeps \<open>Success\<close> equal to "no error and no conflict recorded":
  each failure appends to \<open>Errors\<close> and clears the flag, and nothing else touches
  either.
\<close>

lemma oneway_uploadFile_flags:
  "oneway_uploadFile env cfg change result w = (err, r1, w1) \<Longrightarrow>
     Errors r1 = Errors result \<and> Conflicts r1 = Conflicts result \<and> Success r1 = Success result"
  by (auto simp: oneway_uploadFile_def split: if_splits prod.splits option.splits)

lemma oneway_deleteFile_flags:
  "oneway_deleteFile env change result w = (err, r1, w1) \<Longrightarrow>
     Errors r1 = Errors result \<and> Conflicts r1 = Conflicts result \<and> Success r1 = Success result"
  by (auto simp: oneway_deleteFile_def split: prod.splits option.splits)

lemma oneway_processChange_flags:
  assumes "oneway_processChange env cfg change result w = (err, r1, w1)"
  shows "Errors r1 = Errors result \<and> Conflicts r1 = Conflicts result \<and> Success r1 = Success result"
proof -
  let ?r = "result\<lparr>FilesProcessed := FilesProcessed result + 1\<rparr>"
  have base: "Errors ?r = Errors result \<and> Conflicts ?r = Conflicts result \<and> Success ?r = Success result"
    by simp
  consider (up) "oneway_uploadFile env cfg change ?r w = (err, r1, w1)"
    | (del) "oneway_deleteFile env change ?r w = (err, r1, w1)"
    | (skip) "r1 = ?r\<lparr>FilesSkipped := FilesSkipped ?r + 1\<rparr>"
    | (ren1) e where "oneway_deleteFile env (delete_event (ce_OldPath change)) ?r w = (Some e, r1, w1)"
    | (ren2) r2 w2 where "oneway_deleteFile env (delete_event (ce_OldPath change)) ?r w = (None, r2, w2)"
        "oneway_uploadFile env cfg change r2 w2 = (err, r1, w1)"
    using assms
    by (auto simp: oneway_processChange_def Let_def split: if_splits prod.splits option.splits)
  then show ?thesis
  proof cases
    case up
    from oneway_uploadFile_flags [OF up] show ?thesis by simp
  next
    case del
    from oneway_deleteFile_flags [OF del] show ?thesis by simp
  next
    case skip
    then show ?thesis by simp
  next
    case ren1
    from oneway_deleteFile_flags [OF ren1] show ?thesis by simp
  next
    case ren2
    from oneway_deleteFile_flags [OF ren2(1)] oneway_uploadFile_flags [OF ren2(2)]
    show ?thesis by simp
  qed
qed

lemma oneway_changes_success:
  "Success result = (Errors result = [] \<and> Conflicts result = []) \<Longrightarrow> Conflicts result = [] \<Longrightarrow>
   oneway_changes env cfg changes result w = (r, w') \<Longrightarrow>
   Success r = (Errors r = [] \<and> Conflicts r = []) \<and> Conflicts r = []"
proof (induction changes arbitrary: result w)
  case Nil
  then show ?case by simp
next
  case (Cons change rest)
  obtain err r1 w1 where pc: "oneway_processChange env cfg change result w = (err, r1, w1)"
    by (cases "oneway_processChange env cfg change result w") auto
  note fl = oneway_processChange_flags [OF pc]
  show ?case
  proof (cases err)
    case None
    with pc Cons.prems(3) have "oneway_changes env cfg rest r1 w1 = (r, w')" by simp
    from Cons.IH [OF _ _ this] fl Cons.prems(1,2) show ?thesis by simp
  next
    case (Some e)
    let ?r2 = "r1\<lparr>Errors := Errors r1 @ [error_entry change e (clock env (ticks w1))],
                   Success := False\<rparr>"
    from Some pc Cons.prems(3)
    have "oneway_changes env cfg rest ?r2 (w1\<lparr>ticks := Suc (ticks w1)\<rparr>) = (r, w')"
      by (simp add: time_Now_def)
    from Cons.IH [OF _ _ this] fl Cons.prems(2) show ?thesis by simp
  qed
qed

lemma oneway_Sync_success_iff:
  "Success (fst (oneway_Sync env cfg source destination changes w)) =
     (Errors (fst (oneway_Sync env cfg source destination changes w)) = [] \<and>
      Conflicts (fst (oneway_Sync env cfg source destination changes w)) = [])"
proof -
  let ?w1 = "w\<lparr>ticks := Suc (ticks w)\<rparr>"
  let ?r0 = "new_result (clock env (ticks w))"
  obtain r w2 where ch: "oneway_changes env cfg changes ?r0 ?w1 = (r, w2)"
    by (cases "oneway_changes env cfg changes ?r0 ?w1")
  have "Success ?r0 = (Errors ?r0 = [] \<and> Conflicts ?r0 = [])" "Conflicts ?r0 = []"
    by (simp_all add: new_result_def)
  from oneway_changes_success [OF this ch] ch show ?thesis
    by (simp add: oneway_Sync_def time_Now_def)
qed

text \<open>
  The mirror strategy clears \<open>Success\<close> without recording an error when the listing of
  the remote fails.
\<close>

lemma mirror_listing_failure:
  assumes "\<And>folder s. prov_List (provider env) folder s = (([], Some err), s)"
  shows "Success (fst (mirror_Sync env cfg source destination [] w)) = False \<and>
         Errors (fst (mirror_Sync env cfg source destination [] w)) = []"
  using assms
  by (simp add: mirror_Sync_def cleanupRemote_def do_List_def time_Now_def new_result_def)

text \<open>
  C4 at its failing input. A backup of one Create whose upload fails returns a result
  with the failure recorded in \<open>Errors\<close>, no conflict, and \<open>Success\<close> still true.
\<close>

theorem backup_success_despite_error:
  "Success (fst (backup_Sync (test_env True) (NewPulsePointBackupStrategy None) ''src'' ''dst''
      [change_of ChangeTypeCreate ''a.txt'' [] 3] (remote_with []))) \<and>
   Errors (fst (backup_Sync (test_env True) (NewPulsePointBackupStrategy None) ''src'' ''dst''
      [change_of ChangeTypeCreate ''a.txt'' [] 3] (remote_with []))) =
     [\<lparr> se_Path = ''a.txt'', se_Operation = ''create'',
         se_Message = ''[sync] failed to backup a.txt: connection refused'',
         se_Timestamp = 2000 \<rparr>] \<and>
   Conflicts (fst (backup_Sync (test_env True) (NewPulsePointBackupStrategy None) ''src'' ''dst''
      [change_of ChangeTypeCreate ''a.txt'' [] 3] (remote_with []))) = []"
  by (simp add: failed_backup_run new_result_def)

subsubsection \<open>The mirror's cleanup\<close>

text \<open>On any provider, \<open>cleanupRemote\<close> makes one call: the listing of the root.\<close>

lemma cleanupRemote_only_lists:
  "calls (snd (snd (cleanupRemote env localPath result w))) = calls w @ [CallList ''/'']"
  by (auto simp: cleanupRemote_def do_List_def split: prod.splits option.splits)

text \<open>
  C6 at its failing input. Local tree \<open>{p.txt}\<close>, remote \<open>{p.txt, q.txt}\<close>, no events:
  the mirror lists the remote root and makes no other call; \<open>q.txt\<close> is still on the
  remote afterwards and nothing is counted as deleted.
\<close>

theorem mirror_leaves_remote_extras:
  "calls (snd (mirror_Sync (test_env False) (NewPulsePointMirrorStrategy None) ''src'' ''dst'' []
      (remote_with [stored ''p.txt'', stored ''q.txt'']))) = [CallList ''/''] \<and>
   remote (snd (mirror_Sync (test_env False) (NewPulsePointMirrorStrategy None) ''src'' ''dst'' []
      (remote_with [stored ''p.txt'', stored ''q.txt'']))) = [stored ''p.txt'', stored ''q.txt''] \<and>
   FilesDeleted (fst (mirror_Sync (test_env False) (NewPulsePointMirrorStrategy None)
      ''src'' ''dst'' [] (remote_with [stored ''p.txt'', stored ''q.txt'']))) = 0"
  by (simp add: mirror_no_events_run new_result_def)


subsection \<open>Sync engine\<close>

text \<open>
  C8. \<open>Start\<close> on a running engine returns the already-running error and changes
  nothing; on an engine that is not running (and whose watcher starts) it returns nil
  with \<open>is_running\<close> flipped to true. \<open>Pause\<close> returns an error and changes nothing
  unless the engine is running and not paused; \<open>Resume\<close> returns an error and changes
  nothing unless the engine is running and paused. \<open>Stop\<close> on an engine that is not
  running returns nil and changes nothing.
\<close>

theorem lifecycle_preconditions:
  "(isRunning e \<longrightarrow>
      Start e now watcherStart = Returns (Some (NewSyncError ''engine already running'' None), e))
   \<and> (\<not> isRunning e \<longrightarrow>
        (\<exists>e'. Start e now None = Returns (None, e') \<and> isRunning e' \<and> \<not> isPaused e'))
   \<and> (\<not> (isRunning e \<and> \<not> isPaused e) \<longrightarrow>
        Pause e = Returns (Some (NewSyncError
          (if \<not> isRunning e then ''engine not running'' else ''engine already paused'') None), e))
   \<and> (\<not> (isRunning e \<and> isPaused e) \<longrightarrow>
        Resume e = Returns (Some (NewSyncError
          (if \<not> isRunning e then ''engine not running'' else ''engine not paused'') None), e))
   \<and> (\<not> isRunning e \<longrightarrow> Stop e t1 t2 watcherStop = Returns (None, e))"
  by (auto simp: Start_def Pause_def Resume_def Stop_def Let_def saveState_def)

lemma new_engine_flags: "\<not> isRunning new_engine" "\<not> isPaused new_engine"
  by (simp_all add: new_engine_def)

lemma running_engine_flags: "isRunning running_engine" "\<not> isPaused running_engine"
  by (simp_all add: running_engine_def new_engine_def saveState_def)

text \<open>
  The theorem at a fresh engine and at the running engine that \<open>Start\<close> makes of it.
\<close>

theorem lifecycle_preconditions_witness:
  "isRunning running_engine \<and> \<not> isRunning new_engine \<and>
   Start running_engine 9 None =
     Returns (Some (NewSyncError ''engine already running'' None), running_engine) \<and>
   Start new_engine 5 None = Returns (None, running_engine) \<and>
   Pause new_engine = Returns (Some (NewSyncError ''engine not running'' None), new_engine) \<and>
   Resume new_engine = Returns (Some (NewSyncError ''engine not running'' None), new_engine) \<and>
   Resume running_engine =
     Returns (Some (NewSyncError ''engine not paused'' None), running_engine) \<and>
   Stop new_engine 1 2 None = Returns (None, new_engine)"
proof -
  note n = lifecycle_preconditions [of new_engine 5 None 1 2 None]
  note r = lifecycle_preconditions [of running_engine 9 None 1 2 None]
  have s: "Start new_engine 5 None = Returns (None, running_engine)"
    by (simp add: Start_def Let_def running_engine_def new_engine_def saveState_def)
  from n r s show ?thesis
    by (simp add: new_engine_flags running_engine_flags)
qed

text \<open>
  Beyond the preconditions: the stop channel is closed by \<open>Stop\<close> and never made
  anew, so the \<open>Stop\<close> of an engine that was stopped and started again panics.
\<close>

lemma second_stop_panics:
  "Stop (running_engine\<lparr>stopChan_closed := True\<rparr>) t1 t2 watcherStop =
     Panics ''close of closed channel''"
  by (simp add: Stop_def running_engine_flags running_engine_def new_engine_def saveState_def)

subsubsection \<open>Metrics\<close>

text \<open>
  After any sequence of \<open>recordSuccess\<close> and \<open>recordFailure\<close> on fresh metrics,
  \<open>total_syncs = successful_syncs + failed_syncs\<close> (in 64-bit arithmetic).
\<close>

lemma counters_step:
  "TotalSyncs m = SuccessfulSyncs m + FailedSyncs m \<Longrightarrow>
   TotalSyncs (record_call m c) = SuccessfulSyncs (record_call m c) + FailedSyncs (record_call m c)"
  by (cases c) (simp_all add: recordSuccess_def recordFailure_def Let_def)

lemma counters_foldl:
  "TotalSyncs m = SuccessfulSyncs m + FailedSyncs m \<Longrightarrow>
   TotalSyncs (foldl record_call m cs) =
     SuccessfulSyncs (foldl record_call m cs) + FailedSyncs (foldl record_call m cs)"
  by (induction cs arbitrary: m) (simp_all add: counters_step)

lemma metrics_counters_add_up:
  "TotalSyncs (record_all cs) = SuccessfulSyncs (record_all cs) + FailedSyncs (record_all cs)"
  unfolding record_all_def by (rule counters_foldl) (simp add: new_metrics_def)

lemma speed0: "sync_mbps (one_second_sync 0) = 0"
  by (simp add: sync_mbps_def one_second_sync_def new_result_def)

lemma speed1: "sync_mbps (one_second_sync 1048576) = 1"
  by (simp add: sync_mbps_def one_second_sync_def new_result_def)

lemma dur1: "EndTime (one_second_sync b) - StartTime (one_second_sync b) = 1000000000"
  by (simp add: one_second_sync_def new_result_def)

text \<open>
  C9 at its failing input. Two successful syncs of one second each, the first of 0
  bytes (speed 0 MB/s), the second of 1 MiB (speed 1 MB/s): the cumulative mean of the
  two speeds is 1/2, and \<open>average_speed\<close> is 1. The running average 0 after the first
  sync is taken for "no sample yet".
\<close>

theorem average_speed_not_the_mean:
  "sync_mbps (one_second_sync 0) = 0 \<and>
   sync_mbps (one_second_sync 1048576) = 1 \<and>
   SuccessfulSyncs (record_all [RecordSuccess (one_second_sync 0),
                                RecordSuccess (one_second_sync 1048576)]) = 2 \<and>
   AverageSpeed (record_all [RecordSuccess (one_second_sync 0),
                             RecordSuccess (one_second_sync 1048576)]) = 1 \<and>
   (sync_mbps (one_second_sync 0) + sync_mbps (one_second_sync 1048576)) / 2 = 1 / 2"
  by (simp add: record_all_def recordSuccess_def Let_def dur1 speed0 speed1 new_metrics_def)

subsection \<open>State store\<close>

text \<open>
  C10. On an open database whose bucket exists, a key the bucket does not hold makes
  \<open>GetFileState\<close>, \<open>GetTransaction\<close> and \<open>LoadState\<close> (key \<open>current\<close>) return no value
  and no error. Each of the three returns an error only when the database is not open,
  the bucket is missing, or the stored bytes do not decode.
\<close>

theorem absent_key_is_nil_nil:
  "(db_open db \<and> buckets db BucketFileState = Some bf \<and> bf path = None \<longrightarrow>
      GetFileState codec db path = Inr None)
   \<and> (db_open db \<and> buckets db BucketTransactions = Some bt \<and> bt ident = None \<longrightarrow>
        GetTransaction codec db ident = Inr None)
   \<and> (db_open db \<and> buckets db BucketState = Some bs \<and> bs ''current'' = None \<longrightarrow>
        LoadState codec db = Inr None)
   \<and> (isl (GetFileState codec db path) \<longrightarrow>
        \<not> db_open db \<or> buckets db BucketFileState = None \<or>
        (\<exists>b bytes. buckets db BucketFileState = Some b \<and> b path = Some bytes
            \<and> isl (unmarshal_FileState codec bytes)))
   \<and> (isl (GetTransaction codec db ident) \<longrightarrow>
        \<not> db_open db \<or> buckets db BucketTransactions = None \<or>
        (\<exists>b bytes. buckets db BucketTransactions = Some b \<and> b ident = Some bytes
            \<and> isl (unmarshal_Transaction codec bytes)))
   \<and> (isl (LoadState codec db) \<longrightarrow>
        \<not> db_open db \<or> buckets db BucketState = None \<or>
        (\<exists>b bytes. buckets db BucketState = Some b \<and> b ''current'' = Some bytes
            \<and> isl (unmarshal_SyncState codec bytes)))"
  by (auto simp: GetFileState_def GetTransaction_def LoadState_def view_get_def
      split: option.splits sum.splits)

text \<open>The theorem at the database \<open>Initialize\<close> leaves: three empty buckets.\<close>

theorem absent_key_is_nil_nil_witness:
  "db_open initialized_db \<and>
   buckets initialized_db BucketFileState = Some Map.empty \<and>
   buckets initialized_db BucketTransactions = Some Map.empty \<and>
   buckets initialized_db BucketState = Some Map.empty \<and>
   GetFileState strict_codec initialized_db ''/w/a.txt'' = Inr None \<and>
   GetTransaction strict_codec initialized_db ''tx-1'' = Inr None \<and>
   LoadState strict_codec initialized_db = Inr None"
proof -
  have o: "db_open initialized_db" by (simp add: initialized_db_def)
  have f: "buckets initialized_db BucketFileState = Some Map.empty"
    by (simp add: initialized_db_def BucketState_def BucketFileState_def BucketTransactions_def)
  have t: "buckets initialized_db BucketTransactions = Some Map.empty"
    by (simp add: initialized_db_def BucketState_def BucketFileState_def BucketTransactions_def)
  have s: "buckets initialized_db BucketState = Some Map.empty"
    by (simp add: initialized_db_def BucketState_def BucketFileState_def BucketTransactions_def)
  from absent_key_is_nil_nil [of initialized_db Map.empty "''/w/a.txt''" strict_codec
      Map.empty "''tx-1''" Map.empty] o f t s
  show ?thesis by simp
qed

text \<open>For contrast: a stored value that does not decode is an error.\<close>

lemma stored_garbage_is_an_error:
  "GetFileState strict_codec
     (initialized_db\<lparr>buckets := (buckets initialized_db)(BucketFileState \<mapsto> [''/w/a.txt'' \<mapsto> ''{''])\<rparr>)
     ''/w/a.txt'' =
   Inl (NewDatabaseError ''failed to unmarshal file state''
          (Some (PlainError ''unexpected end of JSON input'')))"
  by (simp add: GetFileState_def view_get_def initialized_db_def strict_codec_def)


end
